theory Spec2Isabelle
  imports Main "HOL-Library.Monad_Syntax"
begin

section \<open>Go values\<close>

text \<open>
  A Go slice is either \<open>nil\<close> or holds a sequence of elements. The two are different
  values (\<open>encoding/json\<close> tells them apart), so the model keeps both. The builtin
  \<open>append(s, x)\<close> never returns \<open>nil\<close>; \<open>range\<close> over a \<open>nil\<close> slice runs zero times.
\<close>

datatype 'a slice = NilSlice | Slice "'a list"

fun elems :: "'a slice \<Rightarrow> 'a list" where
  "elems NilSlice = []"
| "elems (Slice xs) = xs"

fun append_slice :: "'a slice \<Rightarrow> 'a \<Rightarrow> 'a slice" where
  "append_slice NilSlice x = Slice [x]"
| "append_slice (Slice xs) x = Slice (xs @ [x])"

text \<open>
  \<open>time.Time\<close> is an instant; only its zero value and its two renderings
  (\<open>String()\<close> and \<open>MarshalJSON()\<close>, both taken from the environment below) matter here.
\<close>

datatype time = Instant int

definition zero_time :: time where
  "zero_time = Instant 0"

text \<open>
  Go \<open>error\<close> values: the ones the client library hands back, the one made by
  \<open>fmt.Errorf\<close> (with its formatted message), the one \<open>json.MarshalIndent\<close> returns and
  the ones of the \<open>os\<close> and \<open>encoding/csv\<close> packages.
\<close>

datatype error = ClientError string | Errorf string | MarshalError | FileError string

text \<open>
  A run of Go code either panics (here always a nil-pointer dereference) or completes
  with a value. A pointer \<open>*T\<close> is a \<open>T option\<close>; the dereference \<open>*p\<close> of \<open>None\<close> is the
  panic, written with the option monad and turned into \<open>Panic\<close> by the caller.
\<close>

datatype 'a exec = Panic | Done 'a

section \<open>Record model (main.go, lines 18-68)\<close>

record Commit =
  Repo :: string
  SHA :: string
  Message :: string
  Author :: string
  Date :: time

record PullRequest =
  Repo :: string
  Number :: int
  Title :: string
  State :: string
  Author :: string
  Action :: string
  Date :: time

record Issue =
  Repo :: string
  Number :: int
  Title :: string
  State :: string
  Author :: string
  Action :: string
  Date :: time

record Release =
  Repo :: string
  TagName :: string
  Name :: string
  Author :: string
  Action :: string
  Date :: time

record Watch =
  Repo :: string
  Author :: string
  Action :: string
  Date :: time

record Export =
  Commits :: "Commit slice"
  PullRequests :: "PullRequest slice"
  Issues :: "Issue slice"
  Releases :: "Release slice"
  Watch :: "Watch slice"

text \<open>The composite literal \<open>Export{}\<close>: every field is the \<open>nil\<close> slice.\<close>

definition Export_zero :: Export where
  "Export_zero = \<lparr>Export.Commits = NilSlice, Export.PullRequests = NilSlice,
     Export.Issues = NilSlice, Export.Releases = NilSlice, Export.Watch = NilSlice\<rparr>"

section \<open>The GitHub client (package github.com/google/go-github/v64/github)\<close>

text \<open>
  The client library is not part of the repository. Its resource types are declared
  here with exactly the fields main.go reads; every field of pointer type is an option.
  The elements of the result slices (\<open>[]*Repository\<close>, \<open>[]*RepositoryCommit\<close>, ...) are
  taken to be non-nil pointers, as the library's decoder produces them.
\<close>

record github_User =
  Login :: "string option"

record github_Repository =
  Owner :: "github_User option"
  Name :: "string option"

record github_CommitAuthor =
  Name :: "string option"
  Date :: "time option"

record github_Commit =
  Message :: "string option"
  Author :: "github_CommitAuthor option"

record github_RepositoryCommit =
  SHA :: "string option"
  Commit :: "github_Commit option"

record github_PullRequest =
  Number :: "int option"
  Title :: "string option"
  State :: "string option"
  User :: "github_User option"
  CreatedAt :: "time option"

record github_PullRequestLinks =
  URL :: "string option"

record github_Issue =
  Number :: "int option"
  Title :: "string option"
  State :: "string option"
  User :: "github_User option"
  CreatedAt :: "time option"
  PullRequestLinks :: "github_PullRequestLinks option"

record github_RepositoryRelease =
  TagName :: "string option"
  Name :: "string option"
  Author :: "github_User option"
  CreatedAt :: "time option"

record github_ListOptions =
  Page :: int
  PerPage :: int

record github_RepositoryListByAuthenticatedUserOptions =
  Affiliation :: string
  ListOptions :: github_ListOptions

record github_CommitsListOptions =
  Author :: string
  ListOptions :: github_ListOptions

record github_Response =
  NextPage :: int

text \<open>Payloads of the event feed, as \<open>Event.ParsePayload\<close> types them.\<close>

record github_HeadCommit =
  SHA :: "string option"
  Message :: "string option"

record github_PushEvent =
  Commits :: "github_HeadCommit list"

record github_PullRequestEvent =
  Action :: "string option"
  PullRequest :: "github_PullRequest option"

record github_IssuesEvent =
  Action :: "string option"
  Issue :: "github_Issue option"

record github_ReleaseEvent =
  Action :: "string option"
  Release :: "github_RepositoryRelease option"

record github_WatchEvent =
  Action :: "string option"

datatype payload =
    PushEventPayload github_PushEvent
  | PullRequestEventPayload github_PullRequestEvent
  | IssuesEventPayload github_IssuesEvent
  | ReleaseEventPayload github_ReleaseEvent
  | WatchEventPayload github_WatchEvent
  | OtherPayload

text \<open>
  An event of the feed. \<open>ParsePayload\<close> is the outcome of \<open>event.ParsePayload()\<close>: the
  decode error, or the typed payload. It is independent of \<open>Type\<close> here, so the model
  covers both the \<open>switch\<close> on the type string and the type assertion that follows it.
\<close>

record github_Event =
  Type :: "string option"
  Actor :: "github_User option"
  Repo :: "github_Repository option"
  CreatedAt :: "time option"
  ParsePayload :: "error + payload"

text \<open>
  The services of \<open>*github.Client\<close> that main.go calls. Each returns the library's
  \<open>(value, response, err)\<close> triple as \<open>Inl err\<close> or \<open>Inr (value, response)\<close>. A \<open>nil\<close>
  options pointer is \<open>None\<close>.
\<close>

record github_Client =
  Repositories_ListByAuthenticatedUser ::
    "github_RepositoryListByAuthenticatedUserOptions \<Rightarrow> error + github_Repository list \<times> github_Response"
  Users_Get :: "string \<Rightarrow> error + github_User \<times> github_Response"
  Repositories_ListCommits ::
    "string \<Rightarrow> string \<Rightarrow> github_CommitsListOptions \<Rightarrow> error + github_RepositoryCommit list \<times> github_Response"
  PullRequests_List ::
    "string \<Rightarrow> string \<Rightarrow> github_ListOptions option \<Rightarrow> error + github_PullRequest list \<times> github_Response"
  Issues_ListByRepo ::
    "string \<Rightarrow> string \<Rightarrow> github_ListOptions option \<Rightarrow> error + github_Issue list \<times> github_Response"
  Repositories_ListReleases ::
    "string \<Rightarrow> string \<Rightarrow> github_ListOptions option \<Rightarrow> error + github_RepositoryRelease list \<times> github_Response"
  Activity_ListEventsPerformedByUser ::
    "string \<Rightarrow> bool \<Rightarrow> github_ListOptions \<Rightarrow> error + github_Event list \<times> github_Response"

text \<open>The library's nil-safe accessors: the zero value when the receiver or the field is nil.\<close>

definition GetLogin :: "github_User option \<Rightarrow> string" where
  "GetLogin u = (case u of None \<Rightarrow> '''' | Some v \<Rightarrow> (case github_User.Login v of None \<Rightarrow> '''' | Some s \<Rightarrow> s))"

definition GetName :: "github_Repository option \<Rightarrow> string" where
  "GetName r = (case r of None \<Rightarrow> '''' | Some v \<Rightarrow> (case github_Repository.Name v of None \<Rightarrow> '''' | Some s \<Rightarrow> s))"

section \<open>fetchGitHubData (main.go, lines 170-269)\<close>

text \<open>
  The arguments \<open>*repo.Owner.Login, *repo.Name\<close> of every per-repository call: three
  dereferences, each a panic on nil.
\<close>

definition repo_args :: "github_Repository \<Rightarrow> (string \<times> string) option" where
  "repo_args repo = do {
     owner \<leftarrow> github_Repository.Owner repo;
     login \<leftarrow> github_User.Login owner;
     name \<leftarrow> github_Repository.Name repo;
     Some (login, name)
   }"

text \<open>The composite literals of lines 205-211, 221-228, 238-245 and 256-262.\<close>

definition bulk_Commit :: "github_Repository \<Rightarrow> github_RepositoryCommit \<Rightarrow> Commit option" where
  "bulk_Commit repo commit = do {
     name \<leftarrow> github_Repository.Name repo;
     sha \<leftarrow> github_RepositoryCommit.SHA commit;
     c \<leftarrow> github_RepositoryCommit.Commit commit;
     message \<leftarrow> github_Commit.Message c;
     a \<leftarrow> github_Commit.Author c;
     author \<leftarrow> github_CommitAuthor.Name a;
     date \<leftarrow> github_CommitAuthor.Date a;
     Some \<lparr>Commit.Repo = name, Commit.SHA = sha, Commit.Message = message,
       Commit.Author = author, Commit.Date = date\<rparr>
   }"

definition bulk_PullRequest :: "github_Repository \<Rightarrow> github_PullRequest \<Rightarrow> PullRequest option" where
  "bulk_PullRequest repo pr = do {
     name \<leftarrow> github_Repository.Name repo;
     number \<leftarrow> github_PullRequest.Number pr;
     title \<leftarrow> github_PullRequest.Title pr;
     state \<leftarrow> github_PullRequest.State pr;
     u \<leftarrow> github_PullRequest.User pr;
     author \<leftarrow> github_User.Login u;
     date \<leftarrow> github_PullRequest.CreatedAt pr;
     Some \<lparr>PullRequest.Repo = name, PullRequest.Number = number, PullRequest.Title = title,
       PullRequest.State = state, PullRequest.Author = author, PullRequest.Action = '''',
       PullRequest.Date = date\<rparr>
   }"

definition bulk_Issue :: "github_Repository \<Rightarrow> github_Issue \<Rightarrow> Issue option" where
  "bulk_Issue repo issue = do {
     name \<leftarrow> github_Repository.Name repo;
     number \<leftarrow> github_Issue.Number issue;
     title \<leftarrow> github_Issue.Title issue;
     state \<leftarrow> github_Issue.State issue;
     u \<leftarrow> github_Issue.User issue;
     author \<leftarrow> github_User.Login u;
     date \<leftarrow> github_Issue.CreatedAt issue;
     Some \<lparr>Issue.Repo = name, Issue.Number = number, Issue.Title = title,
       Issue.State = state, Issue.Author = author, Issue.Action = '''', Issue.Date = date\<rparr>
   }"

definition bulk_Release :: "github_Repository \<Rightarrow> github_RepositoryRelease \<Rightarrow> Release option" where
  "bulk_Release repo release = do {
     name \<leftarrow> github_Repository.Name repo;
     tag \<leftarrow> github_RepositoryRelease.TagName release;
     rname \<leftarrow> github_RepositoryRelease.Name release;
     u \<leftarrow> github_RepositoryRelease.Author release;
     author \<leftarrow> github_User.Login u;
     date \<leftarrow> github_RepositoryRelease.CreatedAt release;
     Some \<lparr>Release.Repo = name, Release.TagName = tag, Release.Name = rname,
       Release.Author = author, Release.Action = '''', Release.Date = date\<rparr>
   }"

text \<open>The four inner loops: one append per element, a panic abandons the run.\<close>

fun range_commits :: "github_Repository \<Rightarrow> github_RepositoryCommit list \<Rightarrow> Export \<Rightarrow> Export exec" where
  "range_commits repo [] export = Done export"
| "range_commits repo (commit # commits) export =
     (case bulk_Commit repo commit of
        None \<Rightarrow> Panic
      | Some r \<Rightarrow> range_commits repo commits
          (export\<lparr>Export.Commits := append_slice (Export.Commits export) r\<rparr>))"

fun range_prs :: "github_Repository \<Rightarrow> github_PullRequest list \<Rightarrow> Export \<Rightarrow> Export exec" where
  "range_prs repo [] export = Done export"
| "range_prs repo (pr # prs) export =
     (case bulk_PullRequest repo pr of
        None \<Rightarrow> Panic
      | Some r \<Rightarrow> range_prs repo prs
          (export\<lparr>Export.PullRequests := append_slice (Export.PullRequests export) r\<rparr>))"

fun range_issues :: "github_Repository \<Rightarrow> github_Issue list \<Rightarrow> Export \<Rightarrow> Export exec" where
  "range_issues repo [] export = Done export"
| "range_issues repo (issue # issues) export =
     (if github_Issue.PullRequestLinks issue = None then
        (case bulk_Issue repo issue of
           None \<Rightarrow> Panic
         | Some r \<Rightarrow> range_issues repo issues
             (export\<lparr>Export.Issues := append_slice (Export.Issues export) r\<rparr>))
      else range_issues repo issues export)"

fun range_releases :: "github_Repository \<Rightarrow> github_RepositoryRelease list \<Rightarrow> Export \<Rightarrow> Export exec" where
  "range_releases repo [] export = Done export"
| "range_releases repo (release # releases) export =
     (case bulk_Release repo release of
        None \<Rightarrow> Panic
      | Some r \<Rightarrow> range_releases repo releases
          (export\<lparr>Export.Releases := append_slice (Export.Releases export) r\<rparr>))"

text \<open>
  One iteration of the loop over the repositories (lines 192-266). The result
  \<open>Done (export, None)\<close> means that the loop goes on; \<open>Done (export, Some err)\<close> is the
  \<open>return export, err\<close> of the body.
\<close>

definition repo_body ::
    "github_Client \<Rightarrow> string \<Rightarrow> string \<Rightarrow> github_Repository \<Rightarrow> Export \<Rightarrow> (Export \<times> error option) exec" where
  "repo_body client username kind repo export =
     (let opt = \<lparr>github_CommitsListOptions.Author = username,
                 github_CommitsListOptions.ListOptions = \<lparr>Page = 0, PerPage = 100\<rparr>\<rparr> in
      if kind = ''commits'' then
        (case repo_args repo of
           None \<Rightarrow> Panic
         | Some (owner, name) \<Rightarrow>
             (case Repositories_ListCommits client owner name opt of
                Inl err \<Rightarrow> Done (export, Some err)
              | Inr (commits, resp) \<Rightarrow>
                  (case range_commits repo commits export of
                     Panic \<Rightarrow> Panic
                   | Done export' \<Rightarrow> Done (export', None))))
      else if kind = ''pull_requests'' then
        (case repo_args repo of
           None \<Rightarrow> Panic
         | Some (owner, name) \<Rightarrow>
             (case PullRequests_List client owner name None of
                Inl err \<Rightarrow> Done (export, Some err)
              | Inr (prs, resp) \<Rightarrow>
                  (case range_prs repo prs export of
                     Panic \<Rightarrow> Panic
                   | Done export' \<Rightarrow> Done (export', None))))
      else if kind = ''issues'' then
        (case repo_args repo of
           None \<Rightarrow> Panic
         | Some (owner, name) \<Rightarrow>
             (case Issues_ListByRepo client owner name None of
                Inl err \<Rightarrow> Done (export, Some err)
              | Inr (issues, resp) \<Rightarrow>
                  (case range_issues repo issues export of
                     Panic \<Rightarrow> Panic
                   | Done export' \<Rightarrow> Done (export', None))))
      else if kind = ''releases'' then
        (case repo_args repo of
           None \<Rightarrow> Panic
         | Some (owner, name) \<Rightarrow>
             (case Repositories_ListReleases client owner name None of
                Inl err \<Rightarrow> Done (export, Some err)
              | Inr (releases, resp) \<Rightarrow>
                  (case range_releases repo releases export of
                     Panic \<Rightarrow> Panic
                   | Done export' \<Rightarrow> Done (export', None))))
      else Done (export, Some (Errorf (''unsupported kind: '' @ kind))))"

fun range_repos ::
    "github_Client \<Rightarrow> string \<Rightarrow> string \<Rightarrow> github_Repository list \<Rightarrow> Export \<Rightarrow> (Export \<times> error option) exec" where
  "range_repos client username kind [] export = Done (export, None)"
| "range_repos client username kind (repo # repos) export =
     (case repo_body client username kind repo export of
        Panic \<Rightarrow> Panic
      | Done (export', Some err) \<Rightarrow> Done (export', Some err)
      | Done (export', None) \<Rightarrow> range_repos client username kind repos export')"

definition fetchGitHubData :: "github_Client \<Rightarrow> string \<Rightarrow> (Export \<times> error option) exec" where
  "fetchGitHubData client kind =
     (let export = Export_zero;
          opt = \<lparr>Affiliation = ''owner'',
                 github_RepositoryListByAuthenticatedUserOptions.ListOptions = \<lparr>Page = 0, PerPage = 100\<rparr>\<rparr> in
      case Repositories_ListByAuthenticatedUser client opt of
        Inl err \<Rightarrow> Done (export, Some err)
      | Inr (repos, resp) \<Rightarrow>
          (case Users_Get client '''' of
             Inl err \<Rightarrow> Done (export, Some err)
           | Inr (user, resp') \<Rightarrow>
               range_repos client (GetLogin (Some user)) kind repos export))"

section \<open>The environment of a run\<close>

text \<open>
  What the standard library and the operating system contribute to a run, taken as
  parameters: the two renderings of \<open>time.Time\<close> (\<open>MarshalJSON\<close> fails on a year outside
  0..9999, hence the option), the string literal that \<open>encoding/json\<close> writes for a Go
  string (quotes included), the layout \<open>text/tabwriter\<close> gives the buffered cells when it is
  flushed, today's date as \<open>time.Now().Format("20060102")\<close>, and the faults of the file
  system: \<open>os_Create name\<close> is the error of opening \<open>name\<close> for writing (if any) and
  \<open>csv_Write name n\<close> the error of the call of \<open>writer.Write\<close> that follows \<open>n\<close> accepted
  records (if any).
\<close>

record Env =
  time_String :: "time \<Rightarrow> string"
  time_MarshalJSON :: "time \<Rightarrow> string option"
  json_string :: "string \<Rightarrow> string"
  tabwriter_format :: "string \<Rightarrow> string"
  time_Now :: string
  os_Create :: "string \<Rightarrow> error option"
  csv_Write :: "string \<Rightarrow> nat \<Rightarrow> error option"

text \<open>
  The observable state: the files (a JSON file holds bytes, a CSV file the records handed
  to \<open>csv.Writer\<close>, in order) and what has been printed on standard output.
\<close>

datatype file_data = Bytes string | Records "string list list"

record World =
  files :: "string \<rightharpoonup> file_data"
  stdout :: string

text \<open>Decimal rendering of a Go \<open>int\<close>, as \<open>%d\<close> and \<open>encoding/json\<close> write it.\<close>

fun decimal :: "nat \<Rightarrow> string" where
  "decimal n =
     (if n < 10 then [''0123456789'' ! n]
      else decimal (n div 10) @ [''0123456789'' ! (n mod 10)])"

declare decimal.simps [simp del]

definition Itoa :: "int \<Rightarrow> string" where
  "Itoa i = (if i < 0 then CHR ''-'' # decimal (nat (- i)) else decimal (nat i))"

section \<open>outputJSON (main.go, lines 271-277)\<close>

text \<open>
  \<open>json.MarshalIndent(export, "", "  ")\<close> in two steps, as the library does it: the value
  is encoded by its struct tags (a nil slice encodes as \<open>null\<close>, any other slice as an
  array; no field has \<open>omitempty\<close>), then the encoding is laid out with a two-space
  indent. \<open>JLiteral\<close> holds a scalar that is already encoded (a string literal, a number,
  a time).
\<close>

datatype json = JNull | JLiteral string | JArray "json list" | JObject "(string \<times> json) list"

definition newline :: "nat \<Rightarrow> string" where
  "newline depth = CHR 0x0A # concat (replicate depth ''  '')"

definition quoted :: "string \<Rightarrow> string" where
  "quoted s = CHR 0x22 # s @ [CHR 0x22]"

fun Indent :: "nat \<Rightarrow> json \<Rightarrow> string"
  and Indent_elems :: "nat \<Rightarrow> json list \<Rightarrow> string"
  and Indent_members :: "nat \<Rightarrow> (string \<times> json) list \<Rightarrow> string" where
  "Indent d JNull = ''null''"
| "Indent d (JLiteral s) = s"
| "Indent d (JArray []) = ''[]''"
| "Indent d (JArray (v # vs)) = ''['' @ newline (Suc d) @ Indent_elems (Suc d) (v # vs) @ newline d @ '']''"
| "Indent d (JObject []) = ''{}''"
| "Indent d (JObject (m # ms)) = ''{'' @ newline (Suc d) @ Indent_members (Suc d) (m # ms) @ newline d @ ''}''"
| "Indent_elems d [] = []"
| "Indent_elems d [v] = Indent d v"
| "Indent_elems d (v # w # vs) = Indent d v @ '','' @ newline d @ Indent_elems d (w # vs)"
| "Indent_members d [] = []"
| "Indent_members d [(k, v)] = quoted k @ '': '' @ Indent d v"
| "Indent_members d ((k, v) # m # ms) =
     quoted k @ '': '' @ Indent d v @ '','' @ newline d @ Indent_members d (m # ms)"

definition marshal_Commit :: "Env \<Rightarrow> Commit \<Rightarrow> json option" where
  "marshal_Commit env c = do {
     date \<leftarrow> time_MarshalJSON env (Commit.Date c);
     Some (JObject [
       (''repo'', JLiteral (json_string env (Commit.Repo c))),
       (''sha'', JLiteral (json_string env (Commit.SHA c))),
       (''message'', JLiteral (json_string env (Commit.Message c))),
       (''author'', JLiteral (json_string env (Commit.Author c))),
       (''date'', JLiteral date)])
   }"

definition marshal_PullRequest :: "Env \<Rightarrow> PullRequest \<Rightarrow> json option" where
  "marshal_PullRequest env pr = do {
     date \<leftarrow> time_MarshalJSON env (PullRequest.Date pr);
     Some (JObject [
       (''repo'', JLiteral (json_string env (PullRequest.Repo pr))),
       (''number'', JLiteral (Itoa (PullRequest.Number pr))),
       (''title'', JLiteral (json_string env (PullRequest.Title pr))),
       (''state'', JLiteral (json_string env (PullRequest.State pr))),
       (''author'', JLiteral (json_string env (PullRequest.Author pr))),
       (''action'', JLiteral (json_string env (PullRequest.Action pr))),
       (''date'', JLiteral date)])
   }"

definition marshal_Issue :: "Env \<Rightarrow> Issue \<Rightarrow> json option" where
  "marshal_Issue env issue = do {
     date \<leftarrow> time_MarshalJSON env (Issue.Date issue);
     Some (JObject [
       (''repo'', JLiteral (json_string env (Issue.Repo issue))),
       (''number'', JLiteral (Itoa (Issue.Number issue))),
       (''title'', JLiteral (json_string env (Issue.Title issue))),
       (''state'', JLiteral (json_string env (Issue.State issue))),
       (''author'', JLiteral (json_string env (Issue.Author issue))),
       (''action'', JLiteral (json_string env (Issue.Action issue))),
       (''date'', JLiteral date)])
   }"

definition marshal_Release :: "Env \<Rightarrow> Release \<Rightarrow> json option" where
  "marshal_Release env release = do {
     date \<leftarrow> time_MarshalJSON env (Release.Date release);
     Some (JObject [
       (''repo'', JLiteral (json_string env (Release.Repo release))),
       (''tag_name'', JLiteral (json_string env (Release.TagName release))),
       (''name'', JLiteral (json_string env (Release.Name release))),
       (''author'', JLiteral (json_string env (Release.Author release))),
       (''action'', JLiteral (json_string env (Release.Action release))),
       (''date'', JLiteral date)])
   }"

definition marshal_Watch :: "Env \<Rightarrow> Watch \<Rightarrow> json option" where
  "marshal_Watch env watch = do {
     date \<leftarrow> time_MarshalJSON env (Watch.Date watch);
     Some (JObject [
       (''repo'', JLiteral (json_string env (Watch.Repo watch))),
       (''author'', JLiteral (json_string env (Watch.Author watch))),
       (''action'', JLiteral (json_string env (Watch.Action watch))),
       (''date'', JLiteral date)])
   }"

fun marshal_slice :: "('a \<Rightarrow> json option) \<Rightarrow> 'a slice \<Rightarrow> json option" where
  "marshal_slice f NilSlice = Some JNull"
| "marshal_slice f (Slice xs) = map_option JArray (those (map f xs))"

definition marshal_Export :: "Env \<Rightarrow> Export \<Rightarrow> json option" where
  "marshal_Export env export = do {
     commits \<leftarrow> marshal_slice (marshal_Commit env) (Export.Commits export);
     pull_requests \<leftarrow> marshal_slice (marshal_PullRequest env) (Export.PullRequests export);
     issues \<leftarrow> marshal_slice (marshal_Issue env) (Export.Issues export);
     releases \<leftarrow> marshal_slice (marshal_Release env) (Export.Releases export);
     watch \<leftarrow> marshal_slice (marshal_Watch env) (Export.Watch export);
     Some (JObject [(''commits'', commits), (''pull_requests'', pull_requests),
       (''issues'', issues), (''releases'', releases), (''watch'', watch)])
   }"

definition json_MarshalIndent :: "Env \<Rightarrow> Export \<Rightarrow> string option" where
  "json_MarshalIndent env export = map_option (Indent 0) (marshal_Export env export)"

definition os_WriteFile :: "Env \<Rightarrow> string \<Rightarrow> string \<Rightarrow> World \<Rightarrow> error option \<times> World" where
  "os_WriteFile env name data world =
     (case os_Create env name of
        Some err \<Rightarrow> (Some err, world)
      | None \<Rightarrow> (None, world\<lparr>files := (files world)(name \<mapsto> Bytes data)\<rparr>))"

definition outputJSON :: "Env \<Rightarrow> Export \<Rightarrow> string \<Rightarrow> World \<Rightarrow> error option \<times> World" where
  "outputJSON env export outputFile world =
     (case json_MarshalIndent env export of
        None \<Rightarrow> (Some MarshalError, world)
      | Some data \<Rightarrow> os_WriteFile env outputFile data world)"

section \<open>outputCSV (main.go, lines 279-341)\<close>

text \<open>
  \<open>writer.Write(row)\<close> on the writer of the file \<open>name\<close>: the record is added to the
  file, unless the environment makes this call fail.
\<close>

definition written :: "World \<Rightarrow> string \<Rightarrow> string list list" where
  "written world name = (case files world name of Some (Records rs) \<Rightarrow> rs | _ \<Rightarrow> [])"

definition writer_Write :: "Env \<Rightarrow> string \<Rightarrow> string list \<Rightarrow> World \<Rightarrow> error option \<times> World" where
  "writer_Write env name row world =
     (case csv_Write env name (length (written world name)) of
        Some err \<Rightarrow> (Some err, world)
      | None \<Rightarrow> (None, world\<lparr>files := (files world)(name \<mapsto> Records (written world name @ [row]))\<rparr>))"

text \<open>The rows of lines 299, 307, 316, 325 and 333.\<close>

definition commit_row :: "Env \<Rightarrow> Commit \<Rightarrow> string list" where
  "commit_row env commit =
     [''Commit'', Commit.Repo commit, Commit.SHA commit, Commit.Message commit, '''',
      Commit.Author commit, time_String env (Commit.Date commit)]"

definition pr_row :: "Env \<Rightarrow> PullRequest \<Rightarrow> string list" where
  "pr_row env pr =
     [''PullRequest'', PullRequest.Repo pr, Itoa (PullRequest.Number pr), PullRequest.Title pr,
      PullRequest.State pr, PullRequest.Author pr, time_String env (PullRequest.Date pr)]"

definition issue_row :: "Env \<Rightarrow> Issue \<Rightarrow> string list" where
  "issue_row env issue =
     [''Issue'', Issue.Repo issue, Itoa (Issue.Number issue), Issue.Title issue,
      Issue.State issue, Issue.Author issue, time_String env (Issue.Date issue)]"

definition release_row :: "Env \<Rightarrow> Release \<Rightarrow> string list" where
  "release_row env release =
     [''Release'', Release.Repo release, Release.TagName release, Release.Name release, '''',
      Release.Author release, time_String env (Release.Date release)]"

definition watch_row :: "Env \<Rightarrow> Watch \<Rightarrow> string list" where
  "watch_row env watch =
     [''Watch'', Watch.Repo watch, '''', '''', '''', Watch.Action watch,
      time_String env (Watch.Date watch)]"

text \<open>
  A loop that builds the row of each element and hands it to \<open>writer.Write\<close>, returning
  at the first error.
\<close>

fun range_write :: "Env \<Rightarrow> string \<Rightarrow> ('a \<Rightarrow> string list) \<Rightarrow> 'a list \<Rightarrow> World \<Rightarrow> error option \<times> World" where
  "range_write env name row [] world = (None, world)"
| "range_write env name row (x # xs) world =
     (case writer_Write env name (row x) world of
        (Some err, world') \<Rightarrow> (Some err, world')
      | (None, world') \<Rightarrow> range_write env name row xs world')"

definition outputCSV :: "Env \<Rightarrow> Export \<Rightarrow> string \<Rightarrow> string \<Rightarrow> World \<Rightarrow> error option \<times> World" where
  "outputCSV env export outputFile kind world =
     (case os_Create env outputFile of
        Some err \<Rightarrow> (Some err, world)
      | None \<Rightarrow>
          (let file = world\<lparr>files := (files world)(outputFile \<mapsto> Records [])\<rparr>;
               headers = [''Type'', ''Repo'', ''ID'', ''Title'', ''State'', ''Author'', ''Date''] in
           case writer_Write env outputFile headers file of
             (Some err, world') \<Rightarrow> (Some err, world')
           | (None, world') \<Rightarrow>
               if kind = ''commits'' then
                 range_write env outputFile (commit_row env) (elems (Export.Commits export)) world'
               else if kind = ''pull_requests'' then
                 range_write env outputFile (pr_row env) (elems (Export.PullRequests export)) world'
               else if kind = ''issues'' then
                 range_write env outputFile (issue_row env) (elems (Export.Issues export)) world'
               else if kind = ''releases'' then
                 range_write env outputFile (release_row env) (elems (Export.Releases export)) world'
               else if kind = ''watch'' then
                 range_write env outputFile (watch_row env) (elems (Export.Watch export)) world'
               else (None, world')))"

section \<open>outputStdOut (main.go, lines 343-384)\<close>

definition tab :: string where
  "tab = [CHR 0x09]"

definition commit_line :: "Env \<Rightarrow> Commit \<Rightarrow> string" where
  "commit_line env commit =
     time_String env (Commit.Date commit) @ tab @ Commit.Repo commit @ tab @ Commit.SHA commit @ tab @
     Commit.Author commit @ tab @ Commit.Message commit @ [CHR 0x0A]"

definition pr_line :: "Env \<Rightarrow> PullRequest \<Rightarrow> string" where
  "pr_line env pr =
     time_String env (PullRequest.Date pr) @ tab @ PullRequest.Repo pr @ tab @
     Itoa (PullRequest.Number pr) @ tab @ PullRequest.Title pr @ tab @ PullRequest.State pr @ tab @
     PullRequest.Author pr @ [CHR 0x0A]"

definition issue_line :: "Env \<Rightarrow> Issue \<Rightarrow> string" where
  "issue_line env issue =
     time_String env (Issue.Date issue) @ tab @ Issue.Repo issue @ tab @
     Itoa (Issue.Number issue) @ tab @ Issue.Title issue @ tab @ Issue.State issue @ tab @
     Issue.Author issue @ [CHR 0x0A]"

definition release_line :: "Env \<Rightarrow> Release \<Rightarrow> string" where
  "release_line env release =
     time_String env (Release.Date release) @ tab @ Release.Repo release @ tab @
     Release.TagName release @ tab @ Release.Name release @ tab @ Release.Author release @ [CHR 0x0A]"

definition watch_line :: "Env \<Rightarrow> Watch \<Rightarrow> string" where
  "watch_line env watch =
     time_String env (Watch.Date watch) @ tab @ Watch.Repo watch @ tab @ Watch.Action watch @ [CHR 0x0A]"

text \<open>\<open>writer.Flush()\<close>: an empty buffer prints nothing.\<close>

definition tabwriter_Flush :: "Env \<Rightarrow> string \<Rightarrow> World \<Rightarrow> World" where
  "tabwriter_Flush env buf world =
     (if buf = [] then world else world\<lparr>stdout := stdout world @ tabwriter_format env buf\<rparr>)"

definition outputStdOut :: "Env \<Rightarrow> Export \<Rightarrow> string \<Rightarrow> World \<Rightarrow> error option \<times> World" where
  "outputStdOut env export kind world =
     (let buf =
        (if kind = ''commits'' then
           ''Date'' @ tab @ ''Repo'' @ tab @ ''SHA'' @ tab @ ''Author'' @ tab @ ''Message'' @ [CHR 0x0A] @
           concat (map (commit_line env) (elems (Export.Commits export)))
         else if kind = ''pull_requests'' then
           ''Date'' @ tab @ ''Repo'' @ tab @ ''Number'' @ tab @ ''Title'' @ tab @ ''State'' @ tab @ ''Author'' @ [CHR 0x0A] @
           concat (map (pr_line env) (elems (Export.PullRequests export)))
         else if kind = ''issues'' then
           ''Date'' @ tab @ ''Repo'' @ tab @ ''Number'' @ tab @ ''Title'' @ tab @ ''State'' @ tab @ ''Author'' @ [CHR 0x0A] @
           concat (map (issue_line env) (elems (Export.Issues export)))
         else if kind = ''releases'' then
           ''Date'' @ tab @ ''Repo'' @ tab @ ''Tag'' @ tab @ ''Name'' @ tab @ ''Author'' @ [CHR 0x0A] @
           concat (map (release_line env) (elems (Export.Releases export)))
         else if kind = ''watch'' then
           ''Date'' @ tab @ ''Repo'' @ tab @ ''Action'' @ [CHR 0x0A] @
           concat (map (watch_line env) (elems (Export.Watch export)))
         else [])
      in (None, tabwriter_Flush env buf world))"

section \<open>fetchGitHubEvents (main.go, lines 386-472)\<close>

definition get_string :: "string option \<Rightarrow> string" where
  "get_string p = (case p of None \<Rightarrow> '''' | Some s \<Rightarrow> s)"

definition get_int :: "int option \<Rightarrow> int" where
  "get_int p = (case p of None \<Rightarrow> 0 | Some n \<Rightarrow> n)"

definition GetType :: "github_Event \<Rightarrow> string" where
  "GetType event = get_string (github_Event.Type event)"

definition GetCreatedAt :: "github_Event \<Rightarrow> time" where
  "GetCreatedAt event = (case github_Event.CreatedAt event of None \<Rightarrow> zero_time | Some t \<Rightarrow> t)"

definition GetSHA :: "github_HeadCommit \<Rightarrow> string" where
  "GetSHA commit = get_string (github_HeadCommit.SHA commit)"

text \<open>The loop of lines 414-421; \<open>*commit.Message\<close> is the only plain dereference.\<close>

fun range_push_commits :: "github_Event \<Rightarrow> github_HeadCommit list \<Rightarrow> Export \<Rightarrow> Export exec" where
  "range_push_commits event [] export = Done export"
| "range_push_commits event (commit # commits) export =
     (case github_HeadCommit.Message commit of
        None \<Rightarrow> Panic
      | Some message \<Rightarrow>
          range_push_commits event commits
            (export\<lparr>Export.Commits := append_slice (Export.Commits export)
               \<lparr>Commit.Repo = GetName (github_Event.Repo event), Commit.SHA = GetSHA commit,
                Commit.Message = message, Commit.Author = '''', Commit.Date = GetCreatedAt event\<rparr>\<rparr>))"

text \<open>
  The body of the loop over the events of a page (lines 402-461); \<open>Done export\<close> is the
  end of the iteration, by \<open>continue\<close> or by reaching the end of the body.
\<close>

definition event_body :: "string \<Rightarrow> github_Event \<Rightarrow> Export \<Rightarrow> Export exec" where
  "event_body login event export =
     (if GetLogin (github_Event.Actor event) \<noteq> login then Done export
      else
        (case github_Event.ParsePayload event of
           Inl err \<Rightarrow> Done export
         | Inr payload \<Rightarrow>
             if GetType event = ''PushEvent'' then
               (case payload of
                  PushEventPayload p \<Rightarrow> range_push_commits event (github_PushEvent.Commits p) export
                | _ \<Rightarrow> Done export)
             else if GetType event = ''PullRequestEvent'' then
               (case payload of
                  PullRequestEventPayload p \<Rightarrow>
                    Done (export\<lparr>Export.PullRequests := append_slice (Export.PullRequests export)
                      \<lparr>PullRequest.Repo = GetName (github_Event.Repo event),
                       PullRequest.Number = get_int (Option.bind (github_PullRequestEvent.PullRequest p) github_PullRequest.Number),
                       PullRequest.Title = get_string (Option.bind (github_PullRequestEvent.PullRequest p) github_PullRequest.Title),
                       PullRequest.State = '''', PullRequest.Author = '''',
                       PullRequest.Action = get_string (github_PullRequestEvent.Action p),
                       PullRequest.Date = GetCreatedAt event\<rparr>\<rparr>)
                | _ \<Rightarrow> Done export)
             else if GetType event = ''IssuesEvent'' then
               (case payload of
                  IssuesEventPayload p \<Rightarrow>
                    Done (export\<lparr>Export.Issues := append_slice (Export.Issues export)
                      \<lparr>Issue.Repo = GetName (github_Event.Repo event),
                       Issue.Number = get_int (Option.bind (github_IssuesEvent.Issue p) github_Issue.Number),
                       Issue.Title = get_string (Option.bind (github_IssuesEvent.Issue p) github_Issue.Title),
                       Issue.State = '''', Issue.Author = '''',
                       Issue.Action = get_string (github_IssuesEvent.Action p),
                       Issue.Date = GetCreatedAt event\<rparr>\<rparr>)
                | _ \<Rightarrow> Done export)
             else if GetType event = ''ReleaseEvent'' then
               (case payload of
                  ReleaseEventPayload p \<Rightarrow>
                    Done (export\<lparr>Export.Releases := append_slice (Export.Releases export)
                      \<lparr>Release.Repo = GetName (github_Event.Repo event),
                       Release.TagName = get_string (Option.bind (github_ReleaseEvent.Release p) github_RepositoryRelease.TagName),
                       Release.Name = get_string (Option.bind (github_ReleaseEvent.Release p) github_RepositoryRelease.Name),
                       Release.Author = '''',
                       Release.Action = get_string (github_ReleaseEvent.Action p),
                       Release.Date = GetCreatedAt event\<rparr>\<rparr>)
                | _ \<Rightarrow> Done export)
             else if GetType event = ''WatchEvent'' then
               (case payload of
                  WatchEventPayload p \<Rightarrow>
                    Done (export\<lparr>Export.Watch := append_slice (Export.Watch export)
                      \<lparr>Watch.Repo = GetName (github_Event.Repo event), Watch.Author = '''',
                       Watch.Action = get_string (github_WatchEvent.Action p),
                       Watch.Date = GetCreatedAt event\<rparr>\<rparr>)
                | _ \<Rightarrow> Done export)
             else Done export))"

fun range_events :: "string \<Rightarrow> github_Event list \<Rightarrow> Export \<Rightarrow> Export exec" where
  "range_events login [] export = Done export"
| "range_events login (event # events) export =
     (case event_body login event export of
        Panic \<Rightarrow> Panic
      | Done export' \<Rightarrow> range_events login events export')"

text \<open>
  The paging loop (lines 395-469). Nothing bounds the number of pages the server may
  announce, so the loop is a partial function: \<open>None\<close> is a run that never leaves it.
\<close>

partial_function (option) events_loop ::
    "github_Client \<Rightarrow> string \<Rightarrow> github_ListOptions \<Rightarrow> Export \<Rightarrow> (Export \<times> error option) exec option" where
  "events_loop client login opt export =
     (case Activity_ListEventsPerformedByUser client login False opt of
        Inl err \<Rightarrow> Some (Done (export, Some err))
      | Inr (events, resp) \<Rightarrow>
          (case range_events login events export of
             Panic \<Rightarrow> Some Panic
           | Done export' \<Rightarrow>
               if NextPage resp = 0 then Some (Done (export', None))
               else events_loop client login (opt\<lparr>Page := NextPage resp\<rparr>) export'))"

definition fetchGitHubEvents :: "github_Client \<Rightarrow> (Export \<times> error option) exec option" where
  "fetchGitHubEvents client =
     (let export = Export_zero in
      case Users_Get client '''' of
        Inl err \<Rightarrow> Some (Done (export, Some err))
      | Inr (user, resp) \<Rightarrow>
          (case github_User.Login user of
             None \<Rightarrow> Some Panic
           | Some login \<Rightarrow> events_loop client login \<lparr>Page = 0, PerPage = 100\<rparr> export))"

section \<open>generateFilePath and run (main.go, lines 474-487 and 122-168)\<close>

text \<open>\<open>strings.LastIndex(s, "/")\<close>: the index of the last slash, or \<open>-1\<close>.\<close>

fun LastIndex_slash :: "string \<Rightarrow> int" where
  "LastIndex_slash [] = - 1"
| "LastIndex_slash (c # cs) =
     (let r = LastIndex_slash cs in
      if 0 \<le> r then r + 1 else if c = CHR ''/'' then 0 else - 1)"

definition generateFilePath :: "Env \<Rightarrow> string \<Rightarrow> string \<Rightarrow> string \<Rightarrow> string" where
  "generateFilePath env filepath kind format =
     (let timeNow = time_Now env;
          filename =
            (if format = ''json'' then ''github-'' @ kind @ ''-export-'' @ timeNow @ ''.json''
             else if format = ''csv'' then ''github-'' @ kind @ ''-export-'' @ timeNow @ ''.csv''
             else ''stdout'')
      in take (nat (LastIndex_slash filepath + 1)) filepath @ filename)"

record Flags =
  flag_token :: string
  flag_output :: string
  flag_format :: string
  flag_kind :: string
  flag_mode :: string

text \<open>
  \<open>run\<close>, with the client that \<open>github.NewClient\<close> builds from the token as a parameter.
  The result is the error returned (if any) and the state of the files and of standard
  output afterwards; \<open>None\<close> is a run that never returns, \<open>Some Panic\<close> one that crashes.
\<close>

definition run :: "Env \<Rightarrow> github_Client \<Rightarrow> Flags \<Rightarrow> World \<Rightarrow> (error option \<times> World) exec option" where
  "run env client c world =
     (let outputFile = flag_output c; format = flag_format c; kind = flag_kind c in
      case (if flag_mode c = ''events'' then fetchGitHubEvents client
            else Some (fetchGitHubData client kind)) of
        None \<Rightarrow> None
      | Some Panic \<Rightarrow> Some Panic
      | Some (Done (export, Some err)) \<Rightarrow> Some (Done (Some err, world))
      | Some (Done (export, None)) \<Rightarrow>
          (let outputFile' = generateFilePath env outputFile kind format in
           case (if format = ''json'' then outputJSON env export outputFile' world
                 else if format = ''csv'' then outputCSV env export outputFile' kind world
                 else outputStdOut env export kind world) of
             (Some err, world') \<Rightarrow> Some (Done (Some err, world'))
           | (None, world') \<Rightarrow>
               Some (Done (None, world'\<lparr>stdout := stdout world' @
                 ''Export completed successfully. Output written to '' @ outputFile' @ [CHR 0x0A]\<rparr>))))"

section \<open>Vocabulary of the properties\<close>

text \<open>
  \<open>extend s xs\<close> is the slice that appending the elements of \<open>xs\<close> to \<open>s\<close> one by one
  leaves: \<open>s\<close> itself (nil if it was nil) when there is nothing to append.
\<close>

definition extend :: "'a slice \<Rightarrow> 'a list \<Rightarrow> 'a slice" where
  "extend s xs = (if xs = [] then s else Slice (elems s @ xs))"

text \<open>Every date of the export can be encoded by \<open>Time.MarshalJSON\<close>.\<close>

definition marshalable :: "Env \<Rightarrow> Export \<Rightarrow> bool" where
  "marshalable env export \<longleftrightarrow>
     list_all (\<lambda>c. time_MarshalJSON env (Commit.Date c) \<noteq> None) (elems (Export.Commits export)) \<and>
     list_all (\<lambda>p. time_MarshalJSON env (PullRequest.Date p) \<noteq> None) (elems (Export.PullRequests export)) \<and>
     list_all (\<lambda>i. time_MarshalJSON env (Issue.Date i) \<noteq> None) (elems (Export.Issues export)) \<and>
     list_all (\<lambda>r. time_MarshalJSON env (Release.Date r) \<noteq> None) (elems (Export.Releases export)) \<and>
     list_all (\<lambda>w. time_MarshalJSON env (Watch.Date w) \<noteq> None) (elems (Export.Watch export))"

text \<open>
  The text of one collection inside the top-level object: \<open>null\<close> for the nil slice,
  otherwise the array of the encoded records, laid out one level deep.
\<close>

fun collection_text :: "('a \<Rightarrow> json option) \<Rightarrow> 'a slice \<Rightarrow> string" where
  "collection_text f NilSlice = ''null''"
| "collection_text f (Slice xs) = Indent 1 (JArray (map (\<lambda>x. the (f x)) xs))"

section \<open>Fixtures\<close>

text \<open>
  Concrete environments, accounts and feeds on which the properties below are run.
  \<open>fixture_env\<close> has no file-system fault; its renderings of a time are stand-ins.
\<close>

definition fixture_env :: Env where
  "fixture_env = \<lparr>
     time_String = (\<lambda>t. case t of Instant n \<Rightarrow> ''T+'' @ Itoa n),
     time_MarshalJSON = (\<lambda>t. case t of Instant n \<Rightarrow> Some (quoted (''T+'' @ Itoa n))),
     json_string = quoted,
     tabwriter_format = (\<lambda>buf. buf),
     time_Now = ''20240102'',
     os_Create = (\<lambda>name. None),
     csv_Write = (\<lambda>name n. None)\<rparr>"

definition empty_world :: World where
  "empty_world = \<lparr>files = Map.empty, stdout = []\<rparr>"

definition flags_for :: "string \<Rightarrow> string \<Rightarrow> string \<Rightarrow> Flags" where
  "flags_for format kind mode = \<lparr>flag_token = ''secret'', flag_output = ''github-export.json'',
     flag_format = format, flag_kind = kind, flag_mode = mode\<rparr>"

definition octocat :: github_User where
  "octocat = \<lparr>Login = Some ''octocat''\<rparr>"

definition last_page :: github_Response where
  "last_page = \<lparr>NextPage = 0\<rparr>"

text \<open>The account \<open>octocat\<close> with no repository and an empty feed.\<close>

definition idle_client :: github_Client where
  "idle_client = \<lparr>
     Repositories_ListByAuthenticatedUser = (\<lambda>opt. Inr ([], last_page)),
     Users_Get = (\<lambda>user. Inr (octocat, last_page)),
     Repositories_ListCommits = (\<lambda>owner repo opt. Inr ([], last_page)),
     PullRequests_List = (\<lambda>owner repo opt. Inr ([], last_page)),
     Issues_ListByRepo = (\<lambda>owner repo opt. Inr ([], last_page)),
     Repositories_ListReleases = (\<lambda>owner repo opt. Inr ([], last_page)),
     Activity_ListEventsPerformedByUser = (\<lambda>user publicOnly opt. Inr ([], last_page))\<rparr>"

definition hello_world :: github_Repository where
  "hello_world = \<lparr>Owner = Some octocat, github_Repository.Name = Some ''hello-world''\<rparr>"

text \<open>
  A server that holds a complete listing and serves it in pages the way the GitHub REST
  API does: pages are numbered from 1 (0 means the first), the page size defaults to 30
  and is capped at 100, and the response names the next page, or 0 after the last one.
\<close>

definition serve_page :: "github_ListOptions \<Rightarrow> 'a list \<Rightarrow> 'a list \<times> github_Response" where
  "serve_page opt xs =
     (let per_page = (if PerPage opt \<le> 0 then 30 else if 100 < PerPage opt then 100 else PerPage opt);
          page = (if Page opt \<le> 0 then 1 else Page opt);
          start = nat ((page - 1) * per_page) in
      (take (nat per_page) (drop start xs),
       \<lparr>NextPage = (if start + nat per_page < length xs then page + 1 else 0)\<rparr>))"

text \<open>One repository, \<open>hello-world\<close>, with 101 commits by \<open>octocat\<close>.\<close>

definition nth_commit :: "nat \<Rightarrow> github_RepositoryCommit" where
  "nth_commit n = \<lparr>github_RepositoryCommit.SHA = Some (decimal n),
     Commit = Some \<lparr>github_Commit.Message = Some ''fix'',
       github_Commit.Author = Some \<lparr>github_CommitAuthor.Name = Some ''octocat'',
         github_CommitAuthor.Date = Some (Instant (int n))\<rparr>\<rparr>\<rparr>"

definition busy_client :: github_Client where
  "busy_client = idle_client\<lparr>
     Repositories_ListByAuthenticatedUser :=
       (\<lambda>opt. Inr (serve_page (github_RepositoryListByAuthenticatedUserOptions.ListOptions opt) [hello_world])),
     Repositories_ListCommits :=
       (\<lambda>owner repo opt. Inr (serve_page (github_CommitsListOptions.ListOptions opt) (map nth_commit [0..<101])))\<rparr>"

text \<open>One repository with a plain issue and an issue that is a pull request.\<close>

definition plain_issue :: github_Issue where
  "plain_issue = \<lparr>github_Issue.Number = Some 1, github_Issue.Title = Some ''crash'',
     github_Issue.State = Some ''open'', github_Issue.User = Some octocat,
     github_Issue.CreatedAt = Some (Instant 5), PullRequestLinks = None\<rparr>"

definition linked_issue :: github_Issue where
  "linked_issue = \<lparr>github_Issue.Number = Some 2, github_Issue.Title = Some ''patch'',
     github_Issue.State = Some ''open'', github_Issue.User = Some octocat,
     github_Issue.CreatedAt = Some (Instant 6),
     PullRequestLinks = Some \<lparr>URL = Some ''https://api.github.com/repos/octocat/hello-world/pulls/2''\<rparr>\<rparr>"

definition issues_client :: github_Client where
  "issues_client = idle_client\<lparr>
     Repositories_ListByAuthenticatedUser := (\<lambda>opt. Inr ([hello_world], last_page)),
     Issues_ListByRepo := (\<lambda>owner repo opt. Inr ([linked_issue, plain_issue], last_page))\<rparr>"

text \<open>Events of the feed of \<open>octocat\<close>.\<close>

definition push_event :: "github_HeadCommit list \<Rightarrow> github_Event" where
  "push_event commits = \<lparr>Type = Some ''PushEvent'', Actor = Some octocat,
     github_Event.Repo = Some hello_world, github_Event.CreatedAt = Some (Instant 7),
     ParsePayload = Inr (PushEventPayload \<lparr>github_PushEvent.Commits = commits\<rparr>)\<rparr>"

definition watch_event :: github_Event where
  "watch_event = \<lparr>Type = Some ''WatchEvent'', Actor = Some octocat,
     github_Event.Repo = Some hello_world, github_Event.CreatedAt = Some (Instant 8),
     ParsePayload = Inr (WatchEventPayload \<lparr>github_WatchEvent.Action = Some ''started''\<rparr>)\<rparr>"

definition broken_event :: github_Event where
  "broken_event = \<lparr>Type = Some ''WatchEvent'', Actor = Some octocat,
     github_Event.Repo = Some hello_world, github_Event.CreatedAt = Some (Instant 9),
     ParsePayload = Inl (ClientError ''unexpected end of JSON input'')\<rparr>"

definition head_commit :: "string \<Rightarrow> string option \<Rightarrow> github_HeadCommit" where
  "head_commit sha message = \<lparr>github_HeadCommit.SHA = Some sha, github_HeadCommit.Message = message\<rparr>"

text \<open>A feed of one page.\<close>

definition feed_client :: "github_Event list \<Rightarrow> github_Client" where
  "feed_client events = idle_client\<lparr>Activity_ListEventsPerformedByUser :=
     (\<lambda>user publicOnly opt. Inr (events, last_page))\<rparr>"

text \<open>A feed whose first page announces a second one, which the server then fails to deliver.\<close>

definition failing_feed_client :: github_Client where
  "failing_feed_client = idle_client\<lparr>Activity_ListEventsPerformedByUser :=
     (\<lambda>user publicOnly opt.
        if Page opt = 0 then Inr ([broken_event, watch_event], \<lparr>NextPage = 2\<rparr>)
        else Inl (ClientError ''503 Service Unavailable''))\<rparr>"

text \<open>Exports as the fetchers leave them: one collection appended to, the others nil.\<close>

definition release_export :: Export where
  "release_export = Export_zero\<lparr>Export.Releases := Slice [
     \<lparr>Release.Repo = ''hello-world'', Release.TagName = ''v1.0.0'', Release.Name = ''v1.0'',
      Release.Author = ''octocat'', Release.Action = '''', Release.Date = Instant 3\<rparr>]\<rparr>"

definition watch_export :: Export where
  "watch_export = Export_zero\<lparr>Export.Watch := Slice [
     \<lparr>Watch.Repo = ''hello-world'', Watch.Author = '''', Watch.Action = ''started'',
      Watch.Date = Instant 8\<rparr>]\<rparr>"

definition issues_export :: Export where
  "issues_export = Export_zero\<lparr>Export.Issues := Slice [
     \<lparr>Issue.Repo = ''hello-world'', Issue.Number = 1, Issue.Title = ''crash'',
      Issue.State = ''open'', Issue.Author = ''octocat'', Issue.Action = '''',
      Issue.Date = Instant 5\<rparr>]\<rparr>"



section \<open>Properties\<close>

lemma elems_append_slice: "elems (append_slice s x) = elems s @ [x]"
  by (cases s) simp_all

subsection \<open>Writing CSV records\<close>

lemma range_write_ok:
  assumes "\<forall>n. csv_Write env name n = None"
  shows "files world name = Some (Records rs) \<Longrightarrow>
    range_write env name row xs world =
      (None, world\<lparr>files := (files world)(name \<mapsto> Records (rs @ map row xs))\<rparr>)"
proof (induction xs arbitrary: world rs)
  case Nil
  then show ?case by (simp add: map_upd_triv)
next
  case (Cons x xs)
  let ?w = "world\<lparr>files := (files world)(name \<mapsto> Records (rs @ [row x]))\<rparr>"
  have step: "writer_Write env name (row x) world = (None, ?w)"
    using assms Cons.prems by (simp add: writer_Write_def written_def)
  have "range_write env name row (x # xs) world = range_write env name row xs ?w"
    using step by simp
  also have "\<dots> = (None, ?w\<lparr>files := (files ?w)(name \<mapsto> Records ((rs @ [row x]) @ map row xs))\<rparr>)"
    by (rule Cons.IH) simp
  also have "\<dots> = (None, world\<lparr>files := (files world)(name \<mapsto> Records (rs @ map row (x # xs)))\<rparr>)"
    by simp
  finally show ?case .
qed

lemma outputCSV_ok:
  assumes "os_Create env outputFile = None" and "\<forall>n. csv_Write env outputFile n = None"
  shows "outputCSV env export outputFile kind world =
    (None, world\<lparr>files := (files world)(outputFile \<mapsto> Records (
       [''Type'', ''Repo'', ''ID'', ''Title'', ''State'', ''Author'', ''Date''] #
       (if kind = ''commits'' then map (commit_row env) (elems (Export.Commits export))
        else if kind = ''pull_requests'' then map (pr_row env) (elems (Export.PullRequests export))
        else if kind = ''issues'' then map (issue_row env) (elems (Export.Issues export))
        else if kind = ''releases'' then map (release_row env) (elems (Export.Releases export))
        else if kind = ''watch'' then map (watch_row env) (elems (Export.Watch export))
        else [])))\<rparr>)"
proof -
  let ?h = "[''Type'', ''Repo'', ''ID'', ''Title'', ''State'', ''Author'', ''Date'']"
  let ?file = "world\<lparr>files := (files world)(outputFile \<mapsto> Records [])\<rparr>"
  let ?w = "world\<lparr>files := (files world)(outputFile \<mapsto> Records [?h])\<rparr>"
  have head: "writer_Write env outputFile ?h ?file = (None, ?w)"
    using assms(2) by (simp add: writer_Write_def written_def)
  have f: "files ?w outputFile = Some (Records [?h])" by simp
  have rw: "range_write env outputFile row xs ?w =
      (None, world\<lparr>files := (files world)(outputFile \<mapsto> Records (?h # map row xs))\<rparr>)"
    for row :: "'a \<Rightarrow> string list" and xs
    using range_write_ok [OF assms(2) f, of row xs] by simp
  show ?thesis
    unfolding outputCSV_def Let_def using assms(1) head
    by (simp add: rw)
qed

lemma decimal_digit: "n < 10 \<Longrightarrow> decimal n = [''0123456789'' ! n]"
  by (simp add: decimal.simps)

text \<open>
  C4. When the output file can be created and no write to it fails, \<open>outputCSV\<close> returns
  no error and leaves in the file the header record with the seven fixed column names
  followed by one record per element of the collection that matches the kind, in order
  (the kinds are commits, pull_requests, issues, releases and watch); for any other
  kind the file holds the header record only.
\<close>

theorem outputCSV_header_and_rows:
  assumes "os_Create env outputFile = None" and "\<forall>n. csv_Write env outputFile n = None"
  shows "\<exists>rows.
    outputCSV env export outputFile kind world =
      (None, world\<lparr>files := (files world)(outputFile \<mapsto> Records (
         [''Type'', ''Repo'', ''ID'', ''Title'', ''State'', ''Author'', ''Date''] # rows))\<rparr>) \<and>
    (kind = ''commits'' \<longrightarrow> rows = map (commit_row env) (elems (Export.Commits export))) \<and>
    (kind = ''pull_requests'' \<longrightarrow> rows = map (pr_row env) (elems (Export.PullRequests export))) \<and>
    (kind = ''issues'' \<longrightarrow> rows = map (issue_row env) (elems (Export.Issues export))) \<and>
    (kind = ''releases'' \<longrightarrow> rows = map (release_row env) (elems (Export.Releases export))) \<and>
    (kind = ''watch'' \<longrightarrow> rows = map (watch_row env) (elems (Export.Watch export))) \<and>
    (kind \<notin> {''commits'', ''pull_requests'', ''issues'', ''releases'', ''watch''} \<longrightarrow> rows = [])"
  unfolding outputCSV_ok [OF assms] by simp

theorem outputCSV_header_and_rows_witness:
  "outputCSV fixture_env release_export ''out.csv'' ''releases'' empty_world =
     (None, empty_world\<lparr>files := [''out.csv'' \<mapsto> Records [
        [''Type'', ''Repo'', ''ID'', ''Title'', ''State'', ''Author'', ''Date''],
        [''Release'', ''hello-world'', ''v1.0.0'', ''v1.0'', '''', ''octocat'', ''T+3'']]]\<rparr>) \<and>
   outputCSV fixture_env release_export ''out.csv'' ''bogus'' empty_world =
     (None, empty_world\<lparr>files := [''out.csv'' \<mapsto> Records [
        [''Type'', ''Repo'', ''ID'', ''Title'', ''State'', ''Author'', ''Date'']]]\<rparr>)"
proof -
  have h1: "os_Create fixture_env ''out.csv'' = None"
    by (simp add: fixture_env_def)
  have h2: "\<forall>n. csv_Write fixture_env ''out.csv'' n = None"
    by (simp add: fixture_env_def)
  have t: "time_String fixture_env (Instant 3) = ''T+3''"
    by (simp add: fixture_env_def Itoa_def decimal_digit)
  from outputCSV_header_and_rows [OF h1 h2, of release_export "''releases''" empty_world]
       outputCSV_header_and_rows [OF h1 h2, of release_export "''bogus''" empty_world]
  show ?thesis
    by (auto simp: release_row_def release_export_def empty_world_def Export_zero_def t)
qed

text \<open>
  C9. When the output file can be created and no write to it fails, \<open>outputCSV\<close> with
  kind watch writes, after the header, one record per Watch element of the form
  Watch, repo, empty, empty, empty, action, date string: the action is in the sixth
  column, which the header names Author, and the ID, Title and State columns are empty.
\<close>

theorem watch_row_columns:
  assumes "os_Create env outputFile = None" and "\<forall>n. csv_Write env outputFile n = None"
  shows "outputCSV env export outputFile ''watch'' world =
    (None, world\<lparr>files := (files world)(outputFile \<mapsto> Records (
       [''Type'', ''Repo'', ''ID'', ''Title'', ''State'', ''Author'', ''Date''] #
       map (\<lambda>watch. [''Watch'', Watch.Repo watch, '''', '''', '''', Watch.Action watch,
                      time_String env (Watch.Date watch)])
         (elems (Export.Watch export))))\<rparr>)"
proof -
  have "watch_row env = (\<lambda>watch. [''Watch'', Watch.Repo watch, '''', '''', '''', Watch.Action watch,
                      time_String env (Watch.Date watch)])"
    by (rule ext) (simp add: watch_row_def)
  then show ?thesis
    unfolding outputCSV_ok [OF assms] by simp
qed

theorem watch_row_columns_witness:
  "outputCSV fixture_env watch_export ''out.csv'' ''watch'' empty_world =
     (None, empty_world\<lparr>files := [''out.csv'' \<mapsto> Records [
        [''Type'', ''Repo'', ''ID'', ''Title'', ''State'', ''Author'', ''Date''],
        [''Watch'', ''hello-world'', '''', '''', '''', ''started'', ''T+8'']]]\<rparr>)"
proof -
  have h1: "os_Create fixture_env ''out.csv'' = None"
    by (simp add: fixture_env_def)
  have h2: "\<forall>n. csv_Write fixture_env ''out.csv'' n = None"
    by (simp add: fixture_env_def)
  have t: "time_String fixture_env (Instant 8) = ''T+8''"
    by (simp add: fixture_env_def Itoa_def decimal_digit)
  from watch_row_columns [OF h1 h2, of watch_export empty_world]
  show ?thesis
    by (simp add: watch_export_def empty_world_def Export_zero_def t)
qed

text \<open>
  C10. The conversion of a parsed PushEvent is not total: on a feed whose only event is
  a push by the authenticated user with one commit that has a SHA and no message,
  \<open>fetchGitHubEvents\<close> panics at \<open>*commit.Message\<close>, and so does \<open>run\<close> in event mode,
  whatever the format and the kind.
\<close>

theorem push_commit_without_message_panics:
  "fetchGitHubEvents (feed_client [push_event [head_commit ''7fd1a60'' None]]) = Some Panic \<and>
   run env (feed_client [push_event [head_commit ''7fd1a60'' None]]) (flags_for format kind ''events'') world
     = Some Panic"
proof -
  have "fetchGitHubEvents (feed_client [push_event [head_commit ''7fd1a60'' None]]) = Some Panic"
    by (simp add: fetchGitHubEvents_def feed_client_def idle_client_def octocat_def last_page_def
      events_loop.simps event_body_def push_event_def head_commit_def GetLogin_def GetType_def
      get_string_def)
  then show ?thesis by (simp add: run_def flags_for_def)
qed

text \<open>
  C2. For an account that owns no repository, bulk mode with the kind \<open>bogus\<close> does not
  fail: \<open>fetchGitHubData\<close> returns the empty Export and no error (the check of the kind
  sits inside the loop over the repositories), and \<open>run\<close> goes on to the output writer
  and reports success.
\<close>

theorem unsupported_kind_without_repositories_succeeds:
  "fetchGitHubData idle_client ''bogus'' = Done (Export_zero, None) \<and>
   run fixture_env idle_client (flags_for '''' ''bogus'' '''') empty_world =
     Some (Done (None, empty_world\<lparr>stdout :=
       ''Export completed successfully. Output written to stdout'' @ [CHR 0x0A]\<rparr>))"
proof -
  have f: "fetchGitHubData idle_client ''bogus'' = Done (Export_zero, None)"
    by (simp add: fetchGitHubData_def idle_client_def)
  have g: "generateFilePath fixture_env ''github-export.json'' ''bogus'' '''' = ''stdout''"
    by (simp add: generateFilePath_def)
  show ?thesis
    by (simp add: f g run_def flags_for_def outputStdOut_def tabwriter_Flush_def empty_world_def)
qed

subsection \<open>The loops of the bulk fetcher\<close>

lemma extend_Nil: "extend s [] = s"
  by (simp add: extend_def)

lemma extend_append_slice: "extend (append_slice s x) xs = extend s (x # xs)"
  by (cases s) (simp_all add: extend_def)


lemma elems_extend: "elems (extend s xs) = elems s @ xs"
  by (simp add: extend_def)

lemma range_commits_ok:
  "list_all (\<lambda>c. bulk_Commit repo c \<noteq> None) commits \<Longrightarrow>
   range_commits repo commits export =
     Done (export\<lparr>Export.Commits :=
       extend (Export.Commits export) (map (\<lambda>c. the (bulk_Commit repo c)) commits)\<rparr>)"
proof (induction commits arbitrary: export)
  case Nil
  show ?case by (simp add: extend_Nil)
next
  case (Cons c commits)
  then obtain r where r: "bulk_Commit repo c = Some r" by auto
  with Cons show ?case by (simp add: extend_append_slice)
qed


text \<open>Each inner loop touches one collection only.\<close>

lemma range_commits_frame:
  "range_commits repo commits export = Done export' \<Longrightarrow>
   Export.PullRequests export' = Export.PullRequests export \<and>
   Export.Issues export' = Export.Issues export \<and>
   Export.Releases export' = Export.Releases export \<and>
   Export.Watch export' = Export.Watch export"
proof (induction commits arbitrary: export)
  case Nil
  then show ?case by simp
next
  case (Cons c commits)
  then show ?case by (cases "bulk_Commit repo c") auto
qed

lemma range_prs_frame:
  "range_prs repo prs export = Done export' \<Longrightarrow>
   Export.Commits export' = Export.Commits export \<and>
   Export.Issues export' = Export.Issues export \<and>
   Export.Releases export' = Export.Releases export \<and>
   Export.Watch export' = Export.Watch export"
proof (induction prs arbitrary: export)
  case Nil
  then show ?case by simp
next
  case (Cons p prs)
  then show ?case by (cases "bulk_PullRequest repo p") auto
qed

lemma range_issues_frame:
  "range_issues repo issues export = Done export' \<Longrightarrow>
   Export.Commits export' = Export.Commits export \<and>
   Export.PullRequests export' = Export.PullRequests export \<and>
   Export.Releases export' = Export.Releases export \<and>
   Export.Watch export' = Export.Watch export"
proof (induction issues arbitrary: export)
  case Nil
  then show ?case by simp
next
  case (Cons i issues)
  then show ?case
    by (cases "bulk_Issue repo i"; cases "github_Issue.PullRequestLinks i = None") auto
qed

lemma range_releases_frame:
  "range_releases repo releases export = Done export' \<Longrightarrow>
   Export.Commits export' = Export.Commits export \<and>
   Export.PullRequests export' = Export.PullRequests export \<and>
   Export.Issues export' = Export.Issues export \<and>
   Export.Watch export' = Export.Watch export"
proof (induction releases arbitrary: export)
  case Nil
  then show ?case by simp
next
  case (Cons r releases)
  then show ?case by (cases "bulk_Release repo r") auto
qed

text \<open>An iteration changes no collection but the one of its kind, and never Watch.\<close>

lemma repo_body_frame:
  assumes "repo_body client username kind repo export = Done (export', e)"
  shows "(kind \<noteq> ''commits'' \<longrightarrow> Export.Commits export' = Export.Commits export) \<and>
         (kind \<noteq> ''pull_requests'' \<longrightarrow> Export.PullRequests export' = Export.PullRequests export) \<and>
         (kind \<noteq> ''issues'' \<longrightarrow> Export.Issues export' = Export.Issues export) \<and>
         (kind \<noteq> ''releases'' \<longrightarrow> Export.Releases export' = Export.Releases export) \<and>
         Export.Watch export' = Export.Watch export"
proof -
  consider (c) "kind = ''commits''" | (p) "kind = ''pull_requests''" | (i) "kind = ''issues''"
    | (r) "kind = ''releases''"
    | (o) "kind \<noteq> ''commits''" "kind \<noteq> ''pull_requests''" "kind \<noteq> ''issues''" "kind \<noteq> ''releases''"
    by blast
  then show ?thesis
  proof cases
    case c
    with assms show ?thesis
      by (auto simp: repo_body_def split: option.splits sum.splits exec.splits
          dest!: range_commits_frame)
  next
    case p
    with assms show ?thesis
      by (auto simp: repo_body_def split: option.splits sum.splits exec.splits
          dest!: range_prs_frame)
  next
    case i
    with assms show ?thesis
      by (auto simp: repo_body_def split: option.splits sum.splits exec.splits
          dest!: range_issues_frame)
  next
    case r
    with assms show ?thesis
      by (auto simp: repo_body_def split: option.splits sum.splits exec.splits
          dest!: range_releases_frame)
  next
    case o
    with assms show ?thesis
      by (simp add: repo_body_def)
  qed
qed

lemma range_repos_frame:
  "range_repos client username kind repos export = Done (export', e) \<Longrightarrow>
     (kind \<noteq> ''commits'' \<longrightarrow> Export.Commits export' = Export.Commits export) \<and>
     (kind \<noteq> ''pull_requests'' \<longrightarrow> Export.PullRequests export' = Export.PullRequests export) \<and>
     (kind \<noteq> ''issues'' \<longrightarrow> Export.Issues export' = Export.Issues export) \<and>
     (kind \<noteq> ''releases'' \<longrightarrow> Export.Releases export' = Export.Releases export) \<and>
     Export.Watch export' = Export.Watch export"
proof (induction repos arbitrary: export)
  case Nil
  then show ?case by simp
next
  case (Cons repo repos)
  show ?case
  proof (cases "repo_body client username kind repo export")
    case Panic
    with Cons.prems show ?thesis by simp
  next
    case (Done res)
    obtain mid e1 where res: "res = (mid, e1)" by (cases res)
    note body = repo_body_frame [OF Done [unfolded res]]
    show ?thesis
    proof (cases e1)
      case None
      with Done res Cons.prems
      have "range_repos client username kind repos mid = Done (export', e)" by simp
      from Cons.IH [OF this] body show ?thesis by simp
    next
      case (Some err)
      with Done res Cons.prems have "export' = mid" by simp
      with body show ?thesis by simp
    qed
  qed
qed



text \<open>
  C6. Whatever the client returns, the Export that \<open>fetchGitHubData\<close> returns for a kind
  (with or without an error) has the nil slice in every collection other than the one of
  that kind, and always in Watch.
\<close>

theorem bulk_export_only_requested_kind:
  assumes "fetchGitHubData client kind = Done (export, err)"
  shows "(kind \<noteq> ''commits'' \<longrightarrow> Export.Commits export = NilSlice) \<and>
         (kind \<noteq> ''pull_requests'' \<longrightarrow> Export.PullRequests export = NilSlice) \<and>
         (kind \<noteq> ''issues'' \<longrightarrow> Export.Issues export = NilSlice) \<and>
         (kind \<noteq> ''releases'' \<longrightarrow> Export.Releases export = NilSlice) \<and>
         Export.Watch export = NilSlice"
proof -
  let ?opt = "\<lparr>Affiliation = ''owner'',
    github_RepositoryListByAuthenticatedUserOptions.ListOptions = \<lparr>Page = 0, PerPage = 100\<rparr>\<rparr>"
  show ?thesis
  proof (cases "Repositories_ListByAuthenticatedUser client ?opt")
    case (Inl e)
    with assms have "export = Export_zero" by (simp add: fetchGitHubData_def)
    then show ?thesis by (simp add: Export_zero_def)
  next
    case (Inr listing)
    obtain repos resp where listing: "listing = (repos, resp)" by (cases listing)
    show ?thesis
    proof (cases "Users_Get client ''''")
      case (Inl e)
      with Inr listing assms have "export = Export_zero" by (simp add: fetchGitHubData_def)
      then show ?thesis by (simp add: Export_zero_def)
    next
      case got: (Inr got)
      obtain user resp' where "got = (user, resp')" by (cases got)
      with got Inr listing assms
      have "range_repos client (GetLogin (Some user)) kind repos Export_zero = Done (export, err)"
        by (simp add: fetchGitHubData_def)
      from range_repos_frame [OF this] show ?thesis by (simp add: Export_zero_def)
    qed
  qed
qed




theorem bulk_export_only_requested_kind_witness:
  "fetchGitHubData issues_client ''issues'' = Done (issues_export, None) \<and>
   Export.Issues issues_export \<noteq> NilSlice \<and>
   Export.Commits issues_export = NilSlice \<and>
   Export.PullRequests issues_export = NilSlice \<and>
   Export.Releases issues_export = NilSlice \<and>
   Export.Watch issues_export = NilSlice"
proof -
  have run: "fetchGitHubData issues_client ''issues'' = Done (issues_export, None)"
    by (simp add: fetchGitHubData_def issues_client_def idle_client_def octocat_def
        hello_world_def repo_body_def repo_args_def linked_issue_def plain_issue_def
        bulk_Issue_def issues_export_def Export_zero_def GetLogin_def)
  have "Export.Issues issues_export \<noteq> NilSlice"
    by (simp add: issues_export_def)
  with run bulk_export_only_requested_kind [OF run] show ?thesis by simp
qed

subsection \<open>Paging in bulk mode\<close>

lemma bulk_Commit_nth:
  "bulk_Commit hello_world (nth_commit n) =
     Some \<lparr>Commit.Repo = ''hello-world'', Commit.SHA = decimal n, Commit.Message = ''fix'',
       Commit.Author = ''octocat'', Commit.Date = Instant (int n)\<rparr>"
  by (simp add: bulk_Commit_def hello_world_def nth_commit_def)

lemma first_page_of_commits:
  "serve_page \<lparr>Page = 0, PerPage = 100\<rparr> (map nth_commit [0..<101]) =
     (map nth_commit [0..<100], \<lparr>NextPage = 2\<rparr>)"
  by (simp add: serve_page_def take_map)

lemma second_page_of_commits:
  "serve_page \<lparr>Page = 2, PerPage = 100\<rparr> (map nth_commit [0..<101]) =
     ([nth_commit 100], \<lparr>NextPage = 0\<rparr>)"
proof -
  have "drop 100 [0..<101] = [100::nat]"
    by (simp add: drop_upt upt_rec)
  then show ?thesis
    by (simp add: serve_page_def drop_map)
qed

text \<open>
  C1. The account \<open>octocat\<close> owns one repository with 101 commits of its own. The server
  returns the first 100 and announces page 2, which holds the last commit;
  \<open>fetchGitHubData\<close> drops the response, asks for no further page and returns an Export
  with the first 100 commits only.
\<close>

theorem bulk_commits_stop_after_first_page:
  "Repositories_ListCommits busy_client ''octocat'' ''hello-world''
     \<lparr>github_CommitsListOptions.Author = ''octocat'',
      github_CommitsListOptions.ListOptions = \<lparr>Page = 0, PerPage = 100\<rparr>\<rparr>
     = Inr (map nth_commit [0..<100], \<lparr>NextPage = 2\<rparr>) \<and>
   Repositories_ListCommits busy_client ''octocat'' ''hello-world''
     \<lparr>github_CommitsListOptions.Author = ''octocat'',
      github_CommitsListOptions.ListOptions = \<lparr>Page = 2, PerPage = 100\<rparr>\<rparr>
     = Inr ([nth_commit 100], \<lparr>NextPage = 0\<rparr>) \<and>
   fetchGitHubData busy_client ''commits'' =
     Done (Export_zero\<lparr>Export.Commits := Slice (map
       (\<lambda>n. \<lparr>Commit.Repo = ''hello-world'', Commit.SHA = decimal n, Commit.Message = ''fix'',
              Commit.Author = ''octocat'', Commit.Date = Instant (int n)\<rparr>) [0..<100])\<rparr>, None)"
proof -
  have ok: "list_all (\<lambda>c. bulk_Commit hello_world c \<noteq> None) (map nth_commit [0..<100])"
    by (simp add: list_all_iff bulk_Commit_nth)
  have repos: "serve_page \<lparr>Page = 0, PerPage = 100\<rparr> [hello_world] = ([hello_world], \<lparr>NextPage = 0\<rparr>)"
    by (simp add: serve_page_def)
  have args: "repo_args hello_world = Some (''octocat'', ''hello-world'')"
    by (simp add: repo_args_def hello_world_def octocat_def)
  have body: "repo_body busy_client ''octocat'' ''commits'' hello_world Export_zero =
      Done (Export_zero\<lparr>Export.Commits := Slice (map
       (\<lambda>n. \<lparr>Commit.Repo = ''hello-world'', Commit.SHA = decimal n, Commit.Message = ''fix'',
              Commit.Author = ''octocat'', Commit.Date = Instant (int n)\<rparr>) [0..<100])\<rparr>, None)"
    by (simp add: repo_body_def args busy_client_def first_page_of_commits
        range_commits_ok [OF ok] extend_def Export_zero_def bulk_Commit_nth o_def)
  have fetch: "fetchGitHubData busy_client ''commits'' =
      range_repos busy_client ''octocat'' ''commits'' [hello_world] Export_zero"
    by (simp add: fetchGitHubData_def busy_client_def idle_client_def repos GetLogin_def octocat_def)
  show ?thesis
    by (simp add: fetch body)
      (simp add: busy_client_def first_page_of_commits second_page_of_commits)
qed

subsection \<open>Encoding the export\<close>

lemma those_map_total:
  "list_all (\<lambda>x. f x \<noteq> None) xs \<Longrightarrow> those (map f xs) = Some (map (\<lambda>x. the (f x)) xs)"
  by (induction xs) auto

lemma marshal_slice_total:
  "list_all (\<lambda>x. f x \<noteq> None) (elems s) \<Longrightarrow>
   marshal_slice f s = Some (case s of NilSlice \<Rightarrow> JNull | Slice xs \<Rightarrow> JArray (map (\<lambda>x. the (f x)) xs))"
  by (cases s) (simp_all add: those_map_total)

lemma Indent_collection:
  "Indent 1 (case s of NilSlice \<Rightarrow> JNull | Slice xs \<Rightarrow> JArray (map (\<lambda>x. the (f x)) xs)) =
   collection_text f s"
  by (cases s) simp_all

lemma marshal_Commit_total:
  "marshal_Commit env c \<noteq> None \<longleftrightarrow> time_MarshalJSON env (Commit.Date c) \<noteq> None"
  by (cases "time_MarshalJSON env (Commit.Date c)") (simp_all add: marshal_Commit_def)

lemma marshal_PullRequest_total:
  "marshal_PullRequest env p \<noteq> None \<longleftrightarrow> time_MarshalJSON env (PullRequest.Date p) \<noteq> None"
  by (cases "time_MarshalJSON env (PullRequest.Date p)") (simp_all add: marshal_PullRequest_def)

lemma marshal_Issue_total:
  "marshal_Issue env i \<noteq> None \<longleftrightarrow> time_MarshalJSON env (Issue.Date i) \<noteq> None"
  by (cases "time_MarshalJSON env (Issue.Date i)") (simp_all add: marshal_Issue_def)

lemma marshal_Release_total:
  "marshal_Release env r \<noteq> None \<longleftrightarrow> time_MarshalJSON env (Release.Date r) \<noteq> None"
  by (cases "time_MarshalJSON env (Release.Date r)") (simp_all add: marshal_Release_def)

lemma marshal_Watch_total:
  "marshal_Watch env w \<noteq> None \<longleftrightarrow> time_MarshalJSON env (Watch.Date w) \<noteq> None"
  by (cases "time_MarshalJSON env (Watch.Date w)") (simp_all add: marshal_Watch_def)

lemma marshal_Export_total:
  assumes "marshalable env export"
  shows "marshal_Export env export = Some (JObject [
    (''commits'', case Export.Commits export of NilSlice \<Rightarrow> JNull
       | Slice xs \<Rightarrow> JArray (map (\<lambda>x. the (marshal_Commit env x)) xs)),
    (''pull_requests'', case Export.PullRequests export of NilSlice \<Rightarrow> JNull
       | Slice xs \<Rightarrow> JArray (map (\<lambda>x. the (marshal_PullRequest env x)) xs)),
    (''issues'', case Export.Issues export of NilSlice \<Rightarrow> JNull
       | Slice xs \<Rightarrow> JArray (map (\<lambda>x. the (marshal_Issue env x)) xs)),
    (''releases'', case Export.Releases export of NilSlice \<Rightarrow> JNull
       | Slice xs \<Rightarrow> JArray (map (\<lambda>x. the (marshal_Release env x)) xs)),
    (''watch'', case Export.Watch export of NilSlice \<Rightarrow> JNull
       | Slice xs \<Rightarrow> JArray (map (\<lambda>x. the (marshal_Watch env x)) xs))])"
proof -
  from assms have
    c: "list_all (\<lambda>x. marshal_Commit env x \<noteq> None) (elems (Export.Commits export))" and
    p: "list_all (\<lambda>x. marshal_PullRequest env x \<noteq> None) (elems (Export.PullRequests export))" and
    i: "list_all (\<lambda>x. marshal_Issue env x \<noteq> None) (elems (Export.Issues export))" and
    r: "list_all (\<lambda>x. marshal_Release env x \<noteq> None) (elems (Export.Releases export))" and
    w: "list_all (\<lambda>x. marshal_Watch env x \<noteq> None) (elems (Export.Watch export))"
    unfolding marshalable_def marshal_Commit_total marshal_PullRequest_total marshal_Issue_total
      marshal_Release_total marshal_Watch_total
    by simp_all
  show ?thesis
    unfolding marshal_Export_def
    by (simp only: marshal_slice_total [OF c] marshal_slice_total [OF p] marshal_slice_total [OF i]
        marshal_slice_total [OF r] marshal_slice_total [OF w] Option.bind.simps)
qed

lemma Indent_five_members:
  "Indent 0 (JObject [(k1, v1), (k2, v2), (k3, v3), (k4, v4), (k5, v5)]) =
   ''{'' @ [CHR 0x0A] @ ''  '' @ quoted k1 @ '': '' @ Indent 1 v1 @ '','' @
          [CHR 0x0A] @ ''  '' @ quoted k2 @ '': '' @ Indent 1 v2 @ '','' @
          [CHR 0x0A] @ ''  '' @ quoted k3 @ '': '' @ Indent 1 v3 @ '','' @
          [CHR 0x0A] @ ''  '' @ quoted k4 @ '': '' @ Indent 1 v4 @ '','' @
          [CHR 0x0A] @ ''  '' @ quoted k5 @ '': '' @ Indent 1 v5 @
          [CHR 0x0A] @ ''}''"
  by (simp add: newline_def)

text \<open>
  C3 (as amended). When the output file can be created and every date of the export can
  be encoded, \<open>outputJSON\<close> returns no error and writes one object with the five members
  commits, pull_requests, issues, releases and watch, in this order and whatever kind
  was requested (the function does not receive the kind), each member on a line of its
  own behind two spaces. A collection that is nil renders as \<open>null\<close>; any other
  collection renders as the array of its records.
\<close>

theorem outputJSON_five_collections:
  assumes "os_Create env outputFile = None" and "marshalable env export"
  shows "outputJSON env export outputFile world =
    (None, world\<lparr>files := (files world)(outputFile \<mapsto> Bytes (
       ''{'' @ [CHR 0x0A] @ ''  '' @ quoted ''commits'' @ '': '' @
                 collection_text (marshal_Commit env) (Export.Commits export) @ '','' @
              [CHR 0x0A] @ ''  '' @ quoted ''pull_requests'' @ '': '' @
                 collection_text (marshal_PullRequest env) (Export.PullRequests export) @ '','' @
              [CHR 0x0A] @ ''  '' @ quoted ''issues'' @ '': '' @
                 collection_text (marshal_Issue env) (Export.Issues export) @ '','' @
              [CHR 0x0A] @ ''  '' @ quoted ''releases'' @ '': '' @
                 collection_text (marshal_Release env) (Export.Releases export) @ '','' @
              [CHR 0x0A] @ ''  '' @ quoted ''watch'' @ '': '' @
                 collection_text (marshal_Watch env) (Export.Watch export) @
              [CHR 0x0A] @ ''}''))\<rparr>)"
  unfolding outputJSON_def json_MarshalIndent_def marshal_Export_total [OF assms(2)]
  using assms(1)
  by (simp only: option.map option.case Indent_five_members Indent_collection os_WriteFile_def)

theorem outputJSON_five_collections_witness:
  "outputJSON fixture_env watch_export ''out.json'' empty_world =
    (None, empty_world\<lparr>files := [''out.json'' \<mapsto> Bytes (
       ''{'' @ [CHR 0x0A] @ ''  '' @ quoted ''commits'' @ '': null,'' @
              [CHR 0x0A] @ ''  '' @ quoted ''pull_requests'' @ '': null,'' @
              [CHR 0x0A] @ ''  '' @ quoted ''issues'' @ '': null,'' @
              [CHR 0x0A] @ ''  '' @ quoted ''releases'' @ '': null,'' @
              [CHR 0x0A] @ ''  '' @ quoted ''watch'' @ '': ['' @
              [CHR 0x0A] @ ''    {'' @
              [CHR 0x0A] @ ''      '' @ quoted ''repo'' @ '': '' @ quoted ''hello-world'' @ '','' @
              [CHR 0x0A] @ ''      '' @ quoted ''author'' @ '': '' @ quoted '''' @ '','' @
              [CHR 0x0A] @ ''      '' @ quoted ''action'' @ '': '' @ quoted ''started'' @ '','' @
              [CHR 0x0A] @ ''      '' @ quoted ''date'' @ '': '' @ quoted ''T+8'' @
              [CHR 0x0A] @ ''    }'' @
              [CHR 0x0A] @ ''  ]'' @
              [CHR 0x0A] @ ''}'')]\<rparr>)"
proof -
  have h1: "os_Create fixture_env ''out.json'' = None"
    by (simp add: fixture_env_def)
  have t: "time_MarshalJSON fixture_env (Instant 8) = Some (quoted ''T+8'')"
    by (simp add: fixture_env_def Itoa_def decimal_digit)
  have h2: "marshalable fixture_env watch_export"
    by (simp add: marshalable_def watch_export_def Export_zero_def t)
  have w: "marshal_Watch fixture_env
      \<lparr>Watch.Repo = ''hello-world'', Watch.Author = '''', Watch.Action = ''started'',
       Watch.Date = Instant 8\<rparr> =
      Some (JObject [(''repo'', JLiteral (quoted ''hello-world'')), (''author'', JLiteral (quoted '''')),
        (''action'', JLiteral (quoted ''started'')), (''date'', JLiteral (quoted ''T+8''))])"
    by (simp add: marshal_Watch_def t) (simp add: fixture_env_def)
  from outputJSON_five_collections [OF h1 h2, of empty_world]
  show ?thesis
    by (simp add: watch_export_def Export_zero_def empty_world_def w newline_def)
qed

text \<open>
  C3 (as stated) fails. A bulk run for commits on an account without repositories
  returns the export \<open>Export{}\<close>, and its JSON text has \<open>null\<close> in every member, not \<open>[]\<close>.
\<close>

theorem unpopulated_collections_render_null:
  "fetchGitHubData idle_client ''commits'' = Done (Export_zero, None) \<and>
   json_MarshalIndent fixture_env Export_zero = Some (
       ''{'' @ [CHR 0x0A] @ ''  '' @ quoted ''commits'' @ '': null,'' @
              [CHR 0x0A] @ ''  '' @ quoted ''pull_requests'' @ '': null,'' @
              [CHR 0x0A] @ ''  '' @ quoted ''issues'' @ '': null,'' @
              [CHR 0x0A] @ ''  '' @ quoted ''releases'' @ '': null,'' @
              [CHR 0x0A] @ ''  '' @ quoted ''watch'' @ '': null'' @
              [CHR 0x0A] @ ''}'') \<and>
   json_MarshalIndent fixture_env Export_zero \<noteq> Some (
       ''{'' @ [CHR 0x0A] @ ''  '' @ quoted ''commits'' @ '': [],'' @
              [CHR 0x0A] @ ''  '' @ quoted ''pull_requests'' @ '': [],'' @
              [CHR 0x0A] @ ''  '' @ quoted ''issues'' @ '': [],'' @
              [CHR 0x0A] @ ''  '' @ quoted ''releases'' @ '': [],'' @
              [CHR 0x0A] @ ''  '' @ quoted ''watch'' @ '': []'' @
              [CHR 0x0A] @ ''}'')"
proof -
  have f: "fetchGitHubData idle_client ''commits'' = Done (Export_zero, None)"
    by (simp add: fetchGitHubData_def idle_client_def)
  have m: "json_MarshalIndent fixture_env Export_zero = Some (
       ''{'' @ [CHR 0x0A] @ ''  '' @ quoted ''commits'' @ '': null,'' @
              [CHR 0x0A] @ ''  '' @ quoted ''pull_requests'' @ '': null,'' @
              [CHR 0x0A] @ ''  '' @ quoted ''issues'' @ '': null,'' @
              [CHR 0x0A] @ ''  '' @ quoted ''releases'' @ '': null,'' @
              [CHR 0x0A] @ ''  '' @ quoted ''watch'' @ '': null'' @
              [CHR 0x0A] @ ''}'')"
    by (simp add: json_MarshalIndent_def marshal_Export_def Export_zero_def newline_def)
  show ?thesis
    unfolding m using f by (simp add: quoted_def)
qed

subsection \<open>The event fetcher\<close>

lemma range_events_append:
  "range_events login (xs @ ys) export =
     (case range_events login xs export of
        Panic \<Rightarrow> Panic
      | Done export' \<Rightarrow> range_events login ys export')"
proof (induction xs arbitrary: export)
  case Nil
  show ?case by simp
next
  case (Cons x xs)
  then show ?case by (cases "event_body login x export") simp_all
qed

lemma event_body_payload_error:
  "github_Event.ParsePayload event = Inl err \<Longrightarrow> event_body login event export = Done export"
  by (simp add: event_body_def)

lemma range_push_commits_ok:
  "list_all (\<lambda>c. github_HeadCommit.Message c \<noteq> None) commits \<Longrightarrow>
   range_push_commits event commits export =
     Done (export\<lparr>Export.Commits := extend (Export.Commits export)
       (map (\<lambda>commit. \<lparr>Commit.Repo = GetName (github_Event.Repo event), Commit.SHA = GetSHA commit,
                 Commit.Message = the (github_HeadCommit.Message commit), Commit.Author = '''',
                 Commit.Date = GetCreatedAt event\<rparr>) commits)\<rparr>)"
proof (induction commits arbitrary: export)
  case Nil
  show ?case by (simp add: extend_Nil)
next
  case (Cons c commits)
  then obtain m where "github_HeadCommit.Message c = Some m" by auto
  with Cons show ?case by (simp add: extend_append_slice)
qed

text \<open>
  C7. An event whose payload fails to decode leaves the export as it is, the rest of its
  page is processed as if the event were not there, and the loop then goes on to the
  next page as usual. A page request that fails ends the paging loop at once with that
  error, and \<open>run\<close> in event mode then returns the error without touching any file or
  standard output, so that nothing fetched from earlier pages is written.
\<close>

theorem payload_error_skipped_page_error_aborts:
  "(github_Event.ParsePayload event = Inl perr \<longrightarrow>
      event_body login event export = Done export \<and>
      range_events login (before @ event # after) export = range_events login (before @ after) export \<and>
      (Activity_ListEventsPerformedByUser client login False opt = Inr (before @ event # after, resp) \<longrightarrow>
         events_loop client login opt export =
           (case range_events login (before @ after) export of
              Panic \<Rightarrow> Some Panic
            | Done export' \<Rightarrow>
                if NextPage resp = 0 then Some (Done (export', None))
                else events_loop client login (opt\<lparr>Page := NextPage resp\<rparr>) export'))) \<and>
   (Activity_ListEventsPerformedByUser client login False opt' = Inl err \<longrightarrow>
      events_loop client login opt' export = Some (Done (export, Some err))) \<and>
   (flag_mode c = ''events'' \<longrightarrow> fetchGitHubEvents client = Some (Done (fetched, Some err)) \<longrightarrow>
      run env client c world = Some (Done (Some err, world)))"
proof (intro conjI impI)
  assume p: "github_Event.ParsePayload event = Inl perr"
  show body: "event_body login event export = Done export"
    by (rule event_body_payload_error [OF p])
  show skip: "range_events login (before @ event # after) export =
      range_events login (before @ after) export"
    by (cases "range_events login before export")
      (simp_all add: range_events_append event_body_payload_error [OF p])
  assume "Activity_ListEventsPerformedByUser client login False opt = Inr (before @ event # after, resp)"
  then show "events_loop client login opt export =
           (case range_events login (before @ after) export of
              Panic \<Rightarrow> Some Panic
            | Done export' \<Rightarrow>
                if NextPage resp = 0 then Some (Done (export', None))
                else events_loop client login (opt\<lparr>Page := NextPage resp\<rparr>) export')"
    by (subst events_loop.simps) (simp add: skip)
next
  assume "Activity_ListEventsPerformedByUser client login False opt' = Inl err"
  then show "events_loop client login opt' export = Some (Done (export, Some err))"
    by (subst events_loop.simps) simp
next
  assume "flag_mode c = ''events''" and "fetchGitHubEvents client = Some (Done (fetched, Some err))"
  then show "run env client c world = Some (Done (Some err, world))"
    by (simp add: run_def)
qed

theorem payload_error_skipped_page_error_aborts_witness:
  "fetchGitHubEvents failing_feed_client =
     Some (Done (watch_export, Some (ClientError ''503 Service Unavailable''))) \<and>
   run fixture_env failing_feed_client (flags_for ''json'' ''watch'' ''events'') empty_world =
     Some (Done (Some (ClientError ''503 Service Unavailable''), empty_world))"
proof -
  let ?opt = "\<lparr>Page = 0, PerPage = 100\<rparr>"
  let ?opt' = "\<lparr>Page = 2, PerPage = 100\<rparr>"
  let ?err = "ClientError ''503 Service Unavailable''"
  have p: "github_Event.ParsePayload broken_event = Inl (ClientError ''unexpected end of JSON input'')"
    by (simp add: broken_event_def)
  have page1: "Activity_ListEventsPerformedByUser failing_feed_client ''octocat'' False ?opt =
      Inr ([] @ broken_event # [watch_event], \<lparr>NextPage = 2\<rparr>)"
    by (simp add: failing_feed_client_def)
  have page2: "Activity_ListEventsPerformedByUser failing_feed_client ''octocat'' False ?opt' = Inl ?err"
    by (simp add: failing_feed_client_def)
  have w: "event_body ''octocat'' watch_event Export_zero = Done watch_export"
    by (simp add: event_body_def watch_event_def GetLogin_def octocat_def GetType_def
        get_string_def GetName_def hello_world_def GetCreatedAt_def watch_export_def Export_zero_def)
  have mode: "flag_mode (flags_for ''json'' ''watch'' ''events'') = ''events''"
    by (simp add: flags_for_def)
  note first = payload_error_skipped_page_error_aborts
    [where event = broken_event and login = "''octocat''" and export = Export_zero
       and before = "[]" and after = "[watch_event]" and client = failing_feed_client
       and opt = ?opt and resp = "\<lparr>NextPage = 2\<rparr>",
     THEN conjunct1, rule_format, OF p, THEN conjunct2, THEN conjunct2, rule_format, OF page1]
  note second = payload_error_skipped_page_error_aborts
    [where login = "''octocat''" and export = watch_export and client = failing_feed_client
       and opt' = ?opt' and err = ?err,
     THEN conjunct2, THEN conjunct1, rule_format, OF page2]
  have loop: "events_loop failing_feed_client ''octocat'' ?opt Export_zero =
      Some (Done (watch_export, Some ?err))"
    unfolding first by (simp add: w second)
  have login: "Users_Get failing_feed_client [] = Inr (\<lparr>Login = Some ''octocat''\<rparr>, last_page)"
    by (simp add: failing_feed_client_def idle_client_def octocat_def)
  have fetch: "fetchGitHubEvents failing_feed_client = Some (Done (watch_export, Some ?err))"
    by (simp add: fetchGitHubEvents_def login loop)
  note aborts = payload_error_skipped_page_error_aborts
    [where client = failing_feed_client and c = "flags_for ''json'' ''watch'' ''events''"
       and fetched = watch_export and err = ?err and env = fixture_env and world = empty_world,
     THEN conjunct2, THEN conjunct2, rule_format, OF mode fetch]
  from fetch aborts show ?thesis by simp
qed

text \<open>
  What the loop body does with the push and watch events it can convert. For an event of
  the authenticated user with type PushEvent whose payload parses to a push in which
  every commit carries a message, it appends to Commits one record per commit of the
  push, in order, with the repository name and the creation time of the event, the SHA
  and the message of the commit and an empty author, and changes nothing else. For an
  event of the authenticated user with type WatchEvent whose payload parses to a watch
  payload, it appends exactly one Watch record to Watch.
\<close>

lemma push_and_watch_event_records:
  "(GetLogin (github_Event.Actor event) = login \<longrightarrow> GetType event = ''PushEvent'' \<longrightarrow>
    github_Event.ParsePayload event = Inr (PushEventPayload p) \<longrightarrow>
    list_all (\<lambda>commit. github_HeadCommit.Message commit \<noteq> None) (github_PushEvent.Commits p) \<longrightarrow>
      event_body login event export =
        Done (export\<lparr>Export.Commits := extend (Export.Commits export)
          (map (\<lambda>commit. \<lparr>Commit.Repo = GetName (github_Event.Repo event), Commit.SHA = GetSHA commit,
                    Commit.Message = the (github_HeadCommit.Message commit), Commit.Author = '''',
                    Commit.Date = GetCreatedAt event\<rparr>) (github_PushEvent.Commits p))\<rparr>)) \<and>
   (GetLogin (github_Event.Actor event') = login \<longrightarrow> GetType event' = ''WatchEvent'' \<longrightarrow>
    github_Event.ParsePayload event' = Inr (WatchEventPayload w) \<longrightarrow>
      event_body login event' export =
        Done (export\<lparr>Export.Watch := append_slice (Export.Watch export)
          \<lparr>Watch.Repo = GetName (github_Event.Repo event'), Watch.Author = '''',
           Watch.Action = get_string (github_WatchEvent.Action w),
           Watch.Date = GetCreatedAt event'\<rparr>\<rparr>))"
  by (simp add: event_body_def range_push_commits_ok)

lemma push_and_watch_event_records_scenario:
  "fetchGitHubEvents (feed_client
      [push_event [head_commit ''7fd1a60'' (Some ''one''), head_commit ''b2c9d41'' (Some ''two'')],
       watch_event]) =
     Some (Done (Export_zero\<lparr>
       Export.Commits := Slice [
         \<lparr>Commit.Repo = ''hello-world'', Commit.SHA = ''7fd1a60'', Commit.Message = ''one'',
          Commit.Author = '''', Commit.Date = Instant 7\<rparr>,
         \<lparr>Commit.Repo = ''hello-world'', Commit.SHA = ''b2c9d41'', Commit.Message = ''two'',
          Commit.Author = '''', Commit.Date = Instant 7\<rparr>],
       Export.Watch := Slice [
         \<lparr>Watch.Repo = ''hello-world'', Watch.Author = '''', Watch.Action = ''started'',
          Watch.Date = Instant 8\<rparr>]\<rparr>, None))"
proof -
  let ?cs = "[head_commit ''7fd1a60'' (Some ''one''), head_commit ''b2c9d41'' (Some ''two'')]"
  let ?mid = "Export_zero\<lparr>Export.Commits := Slice [
         \<lparr>Commit.Repo = ''hello-world'', Commit.SHA = ''7fd1a60'', Commit.Message = ''one'',
          Commit.Author = '''', Commit.Date = Instant 7\<rparr>,
         \<lparr>Commit.Repo = ''hello-world'', Commit.SHA = ''b2c9d41'', Commit.Message = ''two'',
          Commit.Author = '''', Commit.Date = Instant 7\<rparr>]\<rparr>"
  have hc: "GetSHA (head_commit sha m) = sha" "github_HeadCommit.Message (head_commit sha m) = m"
    for sha m
    by (simp_all add: GetSHA_def get_string_def head_commit_def)
  have a1: "GetLogin (github_Event.Actor (push_event ?cs)) = ''octocat''"
    by (simp add: push_event_def GetLogin_def octocat_def)
  have a2: "GetType (push_event ?cs) = ''PushEvent''"
    by (simp add: push_event_def GetType_def get_string_def)
  have a3: "github_Event.ParsePayload (push_event ?cs) =
      Inr (PushEventPayload \<lparr>github_PushEvent.Commits = ?cs\<rparr>)"
    by (simp add: push_event_def)
  have a4: "list_all (\<lambda>commit. github_HeadCommit.Message commit \<noteq> None)
      (github_PushEvent.Commits \<lparr>github_PushEvent.Commits = ?cs\<rparr>)"
    by (simp add: hc)
  have b1: "GetLogin (github_Event.Actor watch_event) = ''octocat''"
    by (simp add: watch_event_def GetLogin_def octocat_def)
  have b2: "GetType watch_event = ''WatchEvent''"
    by (simp add: watch_event_def GetType_def get_string_def)
  have b3: "github_Event.ParsePayload watch_event =
      Inr (WatchEventPayload \<lparr>github_WatchEvent.Action = Some ''started''\<rparr>)"
    by (simp add: watch_event_def)
  have names: "GetName (github_Event.Repo (push_event cs)) = ''hello-world''"
    "GetCreatedAt (push_event cs) = Instant 7"
    "GetName (github_Event.Repo watch_event) = ''hello-world''"
    "GetCreatedAt watch_event = Instant 8" for cs
    by (simp_all add: push_event_def watch_event_def GetName_def hello_world_def GetCreatedAt_def)
  note push_rule = push_and_watch_event_records
    [where event = "push_event ?cs" and login = "''octocat''" and export = Export_zero,
     THEN conjunct1, rule_format, OF a1 a2 a3 a4]
  have push: "event_body ''octocat'' (push_event ?cs) Export_zero = Done ?mid"
    unfolding push_rule by (simp add: names extend_def Export_zero_def hc)
  note watch_rule = push_and_watch_event_records
    [where event' = watch_event and login = "''octocat''" and export = ?mid,
     THEN conjunct2, rule_format, OF b1 b2 b3]
  have watch: "event_body ''octocat'' watch_event ?mid =
      Done (?mid\<lparr>Export.Watch := Slice [
         \<lparr>Watch.Repo = ''hello-world'', Watch.Author = '''', Watch.Action = ''started'',
          Watch.Date = Instant 8\<rparr>]\<rparr>)"
    unfolding watch_rule by (simp add: names get_string_def Export_zero_def)
  show ?thesis
    by (simp add: fetchGitHubEvents_def feed_client_def idle_client_def octocat_def last_page_def
        events_loop.simps push watch)
qed

text \<open>
  C8. The feed holds a push by the authenticated user with two commits, the second
  without a message, and a watch event. The first commit is appended, then the loop
  panics at \<open>*commit.Message\<close>: \<open>fetchGitHubEvents\<close> and \<open>run\<close> in event mode crash, and
  neither the Commit records of the push nor the Watch record are exported.
\<close>

theorem push_with_message_less_commit_exports_nothing:
  "range_push_commits (push_event [head_commit ''7fd1a60'' (Some ''one''), head_commit ''b2c9d41'' None])
     [head_commit ''7fd1a60'' (Some ''one''), head_commit ''b2c9d41'' None] Export_zero = Panic \<and>
   fetchGitHubEvents (feed_client
     [push_event [head_commit ''7fd1a60'' (Some ''one''), head_commit ''b2c9d41'' None],
      watch_event]) = Some Panic \<and>
   run env (feed_client
     [push_event [head_commit ''7fd1a60'' (Some ''one''), head_commit ''b2c9d41'' None],
      watch_event]) (flags_for format kind ''events'') world = Some Panic"
proof -
  let ?cs = "[head_commit ''7fd1a60'' (Some ''one''), head_commit ''b2c9d41'' None]"
  have hc: "github_HeadCommit.Message (head_commit sha m) = m" for sha m
    by (simp add: head_commit_def)
  have loop: "range_push_commits (push_event ?cs) ?cs Export_zero = Panic"
    by (simp add: hc)
  have body: "event_body ''octocat'' (push_event ?cs) Export_zero = Panic"
    by (simp add: event_body_def push_event_def GetLogin_def octocat_def GetType_def get_string_def hc)
  have fetch: "fetchGitHubEvents (feed_client [push_event ?cs, watch_event]) = Some Panic"
    by (simp add: fetchGitHubEvents_def feed_client_def idle_client_def octocat_def last_page_def
        events_loop.simps body)
  have crash: "run env (feed_client [push_event ?cs, watch_event])
      (flags_for format kind ''events'') world = Some Panic"
    by (simp add: fetch run_def flags_for_def)
  from loop fetch crash show ?thesis by blast
qed

subsection \<open>The check of the kind\<close>

text \<open>
  With at least one repository listed, a kind outside the four supported ones is
  rejected in the first iteration: the export returned with the error is still empty,
  and \<open>run\<close> writes nothing.
\<close>

lemma unsupported_kind_rejected:
  assumes "kind \<notin> {''commits'', ''pull_requests'', ''issues'', ''releases''}"
      and "Repositories_ListByAuthenticatedUser client
             \<lparr>Affiliation = ''owner'',
              github_RepositoryListByAuthenticatedUserOptions.ListOptions = \<lparr>Page = 0, PerPage = 100\<rparr>\<rparr>
           = Inr (repo # repos, resp)"
      and "Users_Get client [] = Inr (user, resp')"
  shows "fetchGitHubData client kind =
           Done (Export_zero, Some (Errorf (''unsupported kind: '' @ kind)))"
    and "flag_mode c \<noteq> ''events'' \<Longrightarrow> flag_kind c = kind \<Longrightarrow>
           run env client c world = Some (Done (Some (Errorf (''unsupported kind: '' @ kind)), world))"
proof -
  show f: "fetchGitHubData client kind =
           Done (Export_zero, Some (Errorf (''unsupported kind: '' @ kind)))"
    using assms by (simp add: fetchGitHubData_def repo_body_def)
  show "flag_mode c \<noteq> ''events'' \<Longrightarrow> flag_kind c = kind \<Longrightarrow>
           run env client c world = Some (Done (Some (Errorf (''unsupported kind: '' @ kind)), world))"
    using f by (simp add: run_def)
qed

end
